theory Spec2Isabelle
  imports Main "HOL-Library.Sublist"
begin

section \<open>Santa Clara County property scraper: a shallow embedding of main.py\<close>

text \<open>
  Python strings are modelled as \<open>string\<close> (lists of \<open>char\<close>), read as ASCII text: one
  \<open>char\<close> is one code point below 128. \<open>None\<close> is \<open>None\<close> of an option type, an exception
  that leaves a function is the \<open>Inl\<close> branch of a sum.
\<close>

subsection \<open>Characters and the string methods the program calls\<close>

definition is_digit :: "char \<Rightarrow> bool" where
  \<comment> \<open>\<open>\d\<close> on ASCII text\<close>
  "is_digit c = (c \<in> set ''0123456789'')"

definition is_space :: "char \<Rightarrow> bool" where
  \<comment> \<open>\<open>\s\<close> and the characters \<open>str.strip()\<close> removes, on ASCII text:
      tab, LF, VT, FF, CR, the separators 0x1C..0x1F and the blank\<close>
  "is_space c = (c \<in> {CHR 0x09, CHR 0x0A, CHR 0x0B, CHR 0x0C, CHR 0x0D,
                        CHR 0x1C, CHR 0x1D, CHR 0x1E, CHR 0x1F, CHR '' ''})"

definition is_lower :: "char \<Rightarrow> bool" where
  "is_lower c = (c \<in> set ''abcdefghijklmnopqrstuvwxyz'')"

definition is_upper :: "char \<Rightarrow> bool" where
  \<comment> \<open>the class \<open>[A-Z]\<close>\<close>
  "is_upper c = (c \<in> set ''ABCDEFGHIJKLMNOPQRSTUVWXYZ'')"

definition is_word :: "char \<Rightarrow> bool" where
  \<comment> \<open>\<open>\w\<close> on ASCII text: letters, digits and the underscore\<close>
  "is_word c = (is_lower c \<or> is_upper c \<or> is_digit c \<or> c = CHR ''_'')"

definition upper_char :: "char \<Rightarrow> char" where
  \<comment> \<open>a lower-case letter loses bit 0x20 of its code, which is 32 less\<close>
  "upper_char c =
     (if is_lower c
      then (case c of Char b0 b1 b2 b3 b4 b5 b6 b7 \<Rightarrow> Char b0 b1 b2 b3 b4 False b6 b7)
      else c)"

definition lower_char :: "char \<Rightarrow> char" where
  \<comment> \<open>an upper-case letter gains bit 0x20 of its code, which is 32 more\<close>
  "lower_char c =
     (if is_upper c
      then (case c of Char b0 b1 b2 b3 b4 b5 b6 b7 \<Rightarrow> Char b0 b1 b2 b3 b4 True b6 b7)
      else c)"

definition upper :: "string \<Rightarrow> string" where
  \<comment> \<open>\<open>str.upper()\<close>\<close>
  "upper s = map upper_char s"

definition strip :: "string \<Rightarrow> string" where
  \<comment> \<open>\<open>str.strip()\<close>\<close>
  "strip s = rev (dropWhile is_space (rev (dropWhile is_space s)))"

subsection \<open>classify_owner_type\<close>

text \<open>
  \<^verbatim>\<open>
  def classify_owner_type(name: str | None) -> str | None:
      if not name:
          return None
      n = name.upper()
      if "TRUST" in n or n.endswith(" TR"):
          return "trust"
      if "LLC" in n:
          return "llc"
      if any(k in n for k in [" INC", " CORP", " CORPORATION", " CO.", " COMPANY"]):
          return "corporation"
      if any(k in n for k in [" LP", " L.P.", " LTD", " LIMITED", " PARTNERSHIP"]):
          return "partnership"
      return "individual"
  \<close>
  \<open>k in n\<close> on strings is the contiguous-substring test, \<open>sublist k n\<close>;
  \<open>n.endswith(k)\<close> is \<open>suffix k n\<close>.
\<close>

definition classify_owner_type :: "string option \<Rightarrow> string option" where
  "classify_owner_type name =
     (case name of
        None \<Rightarrow> None
      | Some nm \<Rightarrow>
          if nm = [] then None
          else let n = upper nm in
            if sublist ''TRUST'' n \<or> suffix '' TR'' n then Some ''trust''
            else if sublist ''LLC'' n then Some ''llc''
            else if list_ex (\<lambda>k. sublist k n)
                      ['' INC'', '' CORP'', '' CORPORATION'', '' CO.'', '' COMPANY'']
              then Some ''corporation''
            else if list_ex (\<lambda>k. sublist k n)
                      ['' LP'', '' L.P.'', '' LTD'', '' LIMITED'', '' PARTNERSHIP'']
              then Some ''partnership''
            else Some ''individual'')"

text \<open>
  The two readings of the classification rule, written from the specification's words.
  A keyword is found case-insensitively in a name when some stretch of the name equals the
  keyword once both are put in upper case.
\<close>

definition ci_contains :: "string \<Rightarrow> string \<Rightarrow> bool" where
  "ci_contains kw s =
     (\<exists>pre mid post. s = pre @ mid @ post \<and> map upper_char mid = map upper_char kw)"

definition ci_endswith :: "string \<Rightarrow> string \<Rightarrow> bool" where
  "ci_endswith kw s = (\<exists>pre mid. s = pre @ mid \<and> map upper_char mid = map upper_char kw)"

definition owner_type_by_priority ::
  "string list \<Rightarrow> string list \<Rightarrow> string option \<Rightarrow> string option" where
  \<comment> \<open>the priority chain of the specification, for given corporation and partnership
      keyword lists\<close>
  "owner_type_by_priority corp part name =
     (case name of
        None \<Rightarrow> None
      | Some nm \<Rightarrow>
          if nm = [] then None
          else if ci_contains ''TRUST'' nm \<or> ci_endswith '' TR'' nm then Some ''trust''
          else if ci_contains ''LLC'' nm then Some ''llc''
          else if (\<exists>k. k \<in> set corp \<and> ci_contains k nm) then Some ''corporation''
          else if (\<exists>k. k \<in> set part \<and> ci_contains k nm) then Some ''partnership''
          else Some ''individual'')"

definition owner_type_as_claimed :: "string option \<Rightarrow> string option" where
  \<comment> \<open>the keywords as the specification lists them\<close>
  "owner_type_as_claimed =
     owner_type_by_priority [''INC'', ''CORP'', ''CORPORATION'', ''CO.'', ''COMPANY'']
       [''LP'', ''L.P.'', ''LTD'', ''LIMITED'', ''PARTNERSHIP'']"

definition owner_type_spaced :: "string option \<Rightarrow> string option" where
  \<comment> \<open>the keywords as the code lists them: each with a leading blank\<close>
  "owner_type_spaced =
     owner_type_by_priority ['' INC'', '' CORP'', '' CORPORATION'', '' CO.'', '' COMPANY'']
       ['' LP'', '' L.P.'', '' LTD'', '' LIMITED'', '' PARTNERSHIP'']"

definition join :: "string \<Rightarrow> string list \<Rightarrow> string" where
  \<comment> \<open>\<open>sep.join(xs)\<close>\<close>
  "join sep xs = (case xs of [] \<Rightarrow> [] | x # r \<Rightarrow> x @ concat (map (\<lambda>y. sep @ y) r))"

fun split_runs :: "(char \<Rightarrow> bool) \<Rightarrow> bool \<Rightarrow> string \<Rightarrow> string \<Rightarrow> string list" where
  \<comment> \<open>\<open>re.split\<close> on one or more separator characters: the pieces between maximal runs of
      separators. \<open>cur\<close> is the piece being read (reversed), \<open>insep\<close> tells that the
      previous character was a separator.\<close>
  "split_runs sep insep cur [] = [rev cur]"
| "split_runs sep insep cur (c # cs) =
     (if sep c then (if insep then split_runs sep True cur cs
                     else rev cur # split_runs sep True [] cs)
      else split_runs sep False (c # cur) cs)"

definition split_lines :: "string \<Rightarrow> string list" where
  \<comment> \<open>\<open>[ln.strip() for ln in re.split(r"[\n\r]+", block) if ln.strip()]\<close>\<close>
  "split_lines block =
     filter (\<lambda>ln. ln \<noteq> [])
       (map strip (split_runs (\<lambda>c. c = CHR 0x0A \<or> c = CHR 0x0D) False [] block))"

definition digits_value :: "string \<Rightarrow> int" where
  \<comment> \<open>the number a string of decimal digits denotes\<close>
  "digits_value ds = foldl (\<lambda>a c. 10 * a + (int (of_char c) - 48)) 0 ds"

subsection \<open>Regular expressions: Python's backtracking search\<close>

text \<open>
  The patterns of the program are written as terms of \<open>rx\<close>. The matcher returns the ways a
  pattern can match at the front of the remaining text, in the order in which Python's
  backtracking engine tries them (greedy repetition longest first, alternatives left to
  right); the first one is the match \<open>re.search\<close> reports. The matcher is given the
  character before the current position (for \<open>\b\<close> and \<open>^\<close>) and the remaining text; a way
  to match is the text consumed, the text left and the groups captured.
\<close>

datatype cls = Digit | Space | UpperAZ | NoneOf string | OneOf string

fun in_cls :: "cls \<Rightarrow> char \<Rightarrow> bool" where
  "in_cls Digit c = is_digit c"
| "in_cls Space c = is_space c"
| "in_cls UpperAZ c = is_upper c"
| "in_cls (NoneOf cs) c = (c \<notin> set cs)"
| "in_cls (OneOf cs) c = (c \<in> set cs)"

datatype rx =
    Lit string        \<comment> \<open>literal text\<close>
  | Cls cls           \<comment> \<open>one character of a class\<close>
  | Star cls          \<comment> \<open>\<open>c*\<close>, greedy\<close>
  | Plus cls          \<comment> \<open>\<open>c+\<close>, greedy\<close>
  | Rep nat cls       \<comment> \<open>\<open>c{n}\<close>\<close>
  | Opt rx            \<comment> \<open>\<open>r?\<close>, greedy\<close>
  | Alt rx rx         \<comment> \<open>\<open>r|s\<close>\<close>
  | Seq rx rx         \<comment> \<open>\<open>rs\<close>\<close>
  | Grp nat rx        \<comment> \<open>capturing group number n\<close>
  | Bnd               \<comment> \<open>\<open>\b\<close>\<close>
  | Bol               \<comment> \<open>\<open>^\<close>\<close>

definition cat :: "rx list \<Rightarrow> rx" where
  \<comment> \<open>a sequence of patterns\<close>
  "cat rs = foldr Seq rs (Lit [])"

type_synonym groups = "(nat \<times> string) list"
  \<comment> \<open>the captured groups, the latest first\<close>

type_synonym matched = "string \<times> string \<times> groups"
  \<comment> \<open>one way to match: the text consumed, the text that remains, the groups captured\<close>

definition at_boundary :: "char option \<Rightarrow> string \<Rightarrow> bool" where
  \<comment> \<open>\<open>\b\<close>: exactly one of the characters before and after the position is a word
      character (the ends of the text count as non-word)\<close>
  "at_boundary p s =
     ((case p of None \<Rightarrow> False | Some c \<Rightarrow> is_word c) \<noteq>
      (case s of [] \<Rightarrow> False | c # _ \<Rightarrow> is_word c))"

definition prev_after :: "char option \<Rightarrow> string \<Rightarrow> char option" where
  \<comment> \<open>the character before the position reached by consuming a text\<close>
  "prev_after p consumed = (if consumed = [] then p else Some (last consumed))"

definition same_char :: "bool \<Rightarrow> char \<Rightarrow> char \<Rightarrow> bool" where
  \<comment> \<open>literal comparison; with \<open>re.I\<close> letters are compared without regard to case\<close>
  "same_char ic a c = (if ic then lower_char a = lower_char c else a = c)"

definition cls_match :: "bool \<Rightarrow> cls \<Rightarrow> char \<Rightarrow> bool" where
  "cls_match ic k c =
     (in_cls k c \<or> (ic \<and> (in_cls k (lower_char c) \<or> in_cls k (upper_char c))))"

fun lit_match :: "bool \<Rightarrow> string \<Rightarrow> string \<Rightarrow> (string \<times> string) option" where
  \<comment> \<open>the literal at the front of the text: what it consumed and what remains\<close>
  "lit_match ic [] s = Some ([], s)"
| "lit_match ic (a # w) [] = None"
| "lit_match ic (a # w) (c # s) =
     (if same_char ic a c
      then (case lit_match ic w s of None \<Rightarrow> None | Some (m, r) \<Rightarrow> Some (c # m, r))
      else None)"

fun star_runs :: "bool \<Rightarrow> cls \<Rightarrow> string \<Rightarrow> (string \<times> string) list" where
  \<comment> \<open>the runs of class characters at the front of the text, the longest first, the empty
      run last\<close>
  "star_runs ic k [] = [([], [])]"
| "star_runs ic k (c # s) =
     (if cls_match ic k c
      then map (\<lambda>(m, r). (c # m, r)) (star_runs ic k s) @ [([], c # s)]
      else [([], c # s)])"

fun rep_run :: "bool \<Rightarrow> cls \<Rightarrow> nat \<Rightarrow> string \<Rightarrow> (string \<times> string) option" where
  \<comment> \<open>exactly n class characters at the front of the text\<close>
  "rep_run ic k 0 s = Some ([], s)"
| "rep_run ic k (Suc n) [] = None"
| "rep_run ic k (Suc n) (c # s) =
     (if cls_match ic k c
      then (case rep_run ic k n s of None \<Rightarrow> None | Some (m, r) \<Rightarrow> Some (c # m, r))
      else None)"

fun rx_match :: "bool \<Rightarrow> rx \<Rightarrow> char option \<Rightarrow> string \<Rightarrow> matched list" where
  \<comment> \<open>the ways the pattern matches at the front of the text \<open>s\<close>, which follows the
      character \<open>p\<close>, in the order of Python's backtracking\<close>
  "rx_match ic (Lit w) p s =
     (case lit_match ic w s of None \<Rightarrow> [] | Some (m, r) \<Rightarrow> [(m, r, [])])"
| "rx_match ic (Cls k) p s =
     (case s of [] \<Rightarrow> [] | c # cs \<Rightarrow> if cls_match ic k c then [([c], cs, [])] else [])"
| "rx_match ic (Star k) p s = map (\<lambda>(m, r). (m, r, [])) (star_runs ic k s)"
| "rx_match ic (Plus k) p s =
     (case s of
        [] \<Rightarrow> []
      | c # cs \<Rightarrow>
          if cls_match ic k c then map (\<lambda>(m, r). (c # m, r, [])) (star_runs ic k cs) else [])"
| "rx_match ic (Rep n k) p s =
     (case rep_run ic k n s of None \<Rightarrow> [] | Some (m, r) \<Rightarrow> [(m, r, [])])"
| "rx_match ic (Opt r) p s = rx_match ic r p s @ [([], s, [])]"
| "rx_match ic (Alt r1 r2) p s = rx_match ic r1 p s @ rx_match ic r2 p s"
| "rx_match ic (Seq r1 r2) p s =
     concat (map (\<lambda>(m1, s1, g1).
                    map (\<lambda>(m2, s2, g2). (m1 @ m2, s2, g2 @ g1))
                        (rx_match ic r2 (prev_after p m1) s1))
                 (rx_match ic r1 p s))"
| "rx_match ic (Grp n r) p s = map (\<lambda>(m, s', g). (m, s', (n, m) # g)) (rx_match ic r p s)"
| "rx_match ic Bnd p s = (if at_boundary p s then [([], s, [])] else [])"
| "rx_match ic Bol p s = (if p = None then [([], s, [])] else [])"

fun search_from :: "bool \<Rightarrow> rx \<Rightarrow> char option \<Rightarrow> string \<Rightarrow> groups option" where
  \<comment> \<open>the leftmost position at which the pattern matches, and the groups of the first
      match there\<close>
  "search_from ic r p [] =
     (case rx_match ic r p [] of [] \<Rightarrow> None | (m, s', g) # _ \<Rightarrow> Some g)"
| "search_from ic r p (c # cs) =
     (case rx_match ic r p (c # cs) of
        [] \<Rightarrow> search_from ic r (Some c) cs
      | (m, s', g) # _ \<Rightarrow> Some g)"

definition re_search :: "bool \<Rightarrow> rx \<Rightarrow> string \<Rightarrow> groups option" where
  \<comment> \<open>\<open>re.search(pattern, text)\<close>; the flag tells whether \<open>re.I\<close> is given. The result
      is the match's groups.\<close>
  "re_search ic r s = search_from ic r None s"

definition re_found :: "bool \<Rightarrow> rx \<Rightarrow> string \<Rightarrow> bool" where
  \<comment> \<open>the truth value of \<open>re.search(pattern, text)\<close>\<close>
  "re_found ic r s = (re_search ic r s \<noteq> None)"

definition group :: "groups \<Rightarrow> nat \<Rightarrow> string" where
  \<comment> \<open>\<open>m.group(n)\<close> of a group that took part in the match\<close>
  "group caps n = (case map_of caps n of None \<Rightarrow> [] | Some g \<Rightarrow> g)"

subsection \<open>The parsed document\<close>

text \<open>
  \<open>BeautifulSoup(html, "lxml")\<close> is library code. Its result is modelled as a tree of tags
  and text nodes (\<open>NavigableString\<close>s); the document itself is the tag \<open>[document]\<close>.
  Attributes, comments and the contents of script and style elements are outside the model.
\<close>

datatype node = Text string | Tag string "node list"

fun find_all :: "string list \<Rightarrow> node \<Rightarrow> node list" where
  \<comment> \<open>\<open>tag.find_all(names)\<close>: the descendant tags with one of the names, in document
      order\<close>
  "find_all names (Text t) = []"
| "find_all names (Tag n cs) =
     concat (map (\<lambda>c. (case c of Text t \<Rightarrow> []
                              | Tag m ds \<Rightarrow> if m \<in> set names then [c] else [])
                       @ find_all names c) cs)"

fun strings :: "node \<Rightarrow> string list" where
  \<comment> \<open>the text nodes below a node, in document order\<close>
  "strings (Text t) = [t]"
| "strings (Tag n cs) = concat (map strings cs)"

definition get_text :: "node \<Rightarrow> string" where
  \<comment> \<open>\<open>node.get_text(" ", strip=True)\<close>: every text node stripped, the empty ones dropped,
      the rest joined by one blank\<close>
  "get_text nd = join '' '' (filter (\<lambda>t. t \<noteq> []) (map strip (strings nd)))"

fun find_string :: "(string \<Rightarrow> bool) \<Rightarrow> node list \<Rightarrow> node list \<Rightarrow> (string \<times> node list) option" where
  \<comment> \<open>\<open>soup.find(string=...)\<close>: the first text node, in document order, that is not
      empty and satisfies the test, together with the nodes that follow its parent among
      the parent's siblings. \<open>sibs\<close> are the nodes following the tag whose children are
      being scanned.\<close>
  "find_string P sibs [] = None"
| "find_string P sibs (Text t # rest) =
     (if t \<noteq> [] \<and> P t then Some (t, sibs) else find_string P sibs rest)"
| "find_string P sibs (Tag n cs # rest) =
     (case find_string P rest cs of
        Some r \<Rightarrow> Some r
      | None \<Rightarrow> find_string P sibs rest)"

definition children :: "node \<Rightarrow> node list" where
  "children nd = (case nd of Text t \<Rightarrow> [] | Tag n cs \<Rightarrow> cs)"

definition is_tag :: "node \<Rightarrow> bool" where
  "is_tag nd = (case nd of Text t \<Rightarrow> False | Tag n cs \<Rightarrow> True)"

definition find_next_sibling :: "node list \<Rightarrow> node option" where
  \<comment> \<open>\<open>tag.find_next_sibling()\<close>, given the nodes after the tag: the first that is a tag\<close>
  "find_next_sibling sibs = find is_tag sibs"

subsubsection \<open>A tree builder for plain markup\<close>

text \<open>
  To read the embedded sample page from its text, the tree builder is modelled for markup
  whose elements are closed explicitly: a tag is \<open><name ...>\<close> or \<open></name>\<close>, \<open><!...>\<close> and
  \<open><?...>\<close> are skipped, \<open>br\<close>, \<open>hr\<close>, \<open>img\<close>, \<open>input\<close>, \<open>meta\<close> and \<open>link\<close> have no
  content, an end tag closes the innermost open element of its name and everything opened
  inside it, and an end tag with no open element is ignored. Character references are not
  decoded, and the \<open>html\<close> and \<open>body\<close> elements the library adds around a fragment are not
  added; no function of the program looks at them.
\<close>

datatype token = TOpen string | TClose string | TText string

definition is_name_char :: "char \<Rightarrow> bool" where
  "is_name_char c = (is_lower c \<or> is_upper c \<or> is_digit c)"

definition tag_token :: "string \<Rightarrow> token list" where
  \<comment> \<open>the token of the text between \<open><\<close> and \<open>>\<close>\<close>
  "tag_token t =
     (case t of
        [] \<Rightarrow> []
      | c # r \<Rightarrow>
          if c = CHR ''!'' \<or> c = CHR ''?'' then []
          else if c = CHR ''/'' then [TClose (map lower_char (takeWhile is_name_char r))]
          else [TOpen (map lower_char (takeWhile is_name_char t))])"

definition flush :: "string \<Rightarrow> token list" where
  "flush acc = (if acc = [] then [] else [TText (rev acc)])"

fun lex_text :: "string \<Rightarrow> string \<Rightarrow> token list"
  and lex_tag :: "string \<Rightarrow> string \<Rightarrow> token list" where
  "lex_text acc [] = flush acc"
| "lex_text acc (c # cs) =
     (if c = CHR ''<'' then flush acc @ lex_tag [] cs else lex_text (c # acc) cs)"
| "lex_tag acc [] = []"
| "lex_tag acc (c # cs) =
     (if c = CHR ''>'' then tag_token (rev acc) @ lex_text [] cs else lex_tag (c # acc) cs)"

type_synonym frames = "(string \<times> node list) list"
  \<comment> \<open>the open elements, innermost first, each with its children so far (latest first)\<close>

fun close_top :: "frames \<Rightarrow> frames" where
  "close_top ((n, cs) # (m, ds) # rest) = (m, Tag n (rev cs) # ds) # rest"
| "close_top fs = fs"

fun close_until :: "string \<Rightarrow> frames \<Rightarrow> frames" where
  "close_until name ((n, cs) # (m, ds) # rest) =
     (if n = name then close_top ((n, cs) # (m, ds) # rest)
      else close_until name (close_top ((n, cs) # (m, ds) # rest)))"
| "close_until name fs = fs"

fun close_all :: "frames \<Rightarrow> node list" where
  "close_all ((n, cs) # (m, ds) # rest) = close_all (close_top ((n, cs) # (m, ds) # rest))"
| "close_all [(n, cs)] = rev cs"
| "close_all [] = []"

definition void_elements :: "string list" where
  "void_elements = [''br'', ''hr'', ''img'', ''input'', ''meta'', ''link'']"

fun build :: "token list \<Rightarrow> frames \<Rightarrow> frames" where
  "build [] fs = fs"
| "build (tk # ts) [] = []"
| "build (TText t # ts) ((n, cs) # rest) = build ts ((n, Text t # cs) # rest)"
| "build (TOpen m # ts) ((n, cs) # rest) =
     (if m \<in> set void_elements then build ts ((n, Tag m [] # cs) # rest)
      else build ts ((m, []) # (n, cs) # rest))"
| "build (TClose m # ts) ((n, cs) # rest) =
     (if m \<in> set (map fst (butlast ((n, cs) # rest)))
      then build ts (close_until m ((n, cs) # rest))
      else build ts ((n, cs) # rest))"

definition BeautifulSoup :: "string \<Rightarrow> node" where
  "BeautifulSoup html =
     Tag ''[document]'' (close_all (build (lex_text [] html) [(''[document]'', [])]))"

subsection \<open>The record the program produces\<close>

text \<open>
  The nested dictionaries with fixed keys are records; a key whose value is \<open>None\<close> is a
  field that is \<open>None\<close>. Values read from JSON are \<open>pyval\<close>s: \<open>None\<close>, a truth value, an
  integer or a string (floating-point numbers are outside the model). The key \<open>zip\<close>
  is the field \<open>zipcode\<close>.
\<close>

datatype pyval = PNone | PBool bool | PInt int | PStr string

datatype error = ValueError | KeyError | AttributeError | TypeError | AssertionError

record address =
  street :: "string option"
  city :: "string option"
  state :: "string option"
  zipcode :: "string option"

record transfer =
  recording_date :: "string option"
  doc_number :: "string option"
  price :: "int option"

record assessment =
  land :: "int option"
  improvements :: "int option"
  total :: "int option"
  year :: "int option"

record details =
  use_code :: "string option"
  year_built :: "int option"
  living_sqft :: "int option"
  lot_sqft :: "int option"

record property =
  apn :: pyval
  situs_address :: address
  owner_names :: "string list"
  owner_mailing_address :: address
  owner_type :: "string option"
  last_transfer :: transfer
  assessed_values :: assessment
  homeowner_exemption :: "bool option"
  property_details :: details
  recorder_doc_url :: "string option"

definition no_address :: address where
  \<comment> \<open>\<open>{"street": None, "city": None, "state": None, "zip": None}\<close>\<close>
  "no_address = \<lparr>street = None, city = None, state = None, zipcode = None\<rparr>"

definition of_opt :: "string option \<Rightarrow> pyval" where
  "of_opt v = (case v of None \<Rightarrow> PNone | Some s \<Rightarrow> PStr s)"

definition truthy :: "pyval \<Rightarrow> bool" where
  \<comment> \<open>Python's truth value of a value\<close>
  "truthy v = (case v of PNone \<Rightarrow> False | PBool b \<Rightarrow> b | PInt i \<Rightarrow> i \<noteq> 0 | PStr s \<Rightarrow> s \<noteq> [])"

definition nonempty :: "string option \<Rightarrow> bool" where
  \<comment> \<open>the truth value of a \<open>str | None\<close>\<close>
  "nonempty v = (case v of None \<Rightarrow> False | Some s \<Rightarrow> s \<noteq> [])"

definition RECORDER_SEARCH_LANDING :: string where
  "RECORDER_SEARCH_LANDING =
     ''https://clerkrecorder.santaclaracounty.gov/official-records/records-search''"

subsection \<open>parse_property_page\<close>

text \<open>
  \<open>_LABEL_ALIASES\<close>: the patterns of each field, in the order of the source. All are
  searched with \<open>re.I\<close>.
  \<^verbatim>\<open>
    "apn": [r"\bAPN\b", r"Assessor'?s?\s+Parcel\s+Number"],
    "situs_address": [r"Situs\s+Address", r"Property\s+Address"],
    "mailing_address": [r"Mailing\s+Address"],
    "owner_name": [r"Owner\s*Name", r"Assessee\s*Name"],
    "homeowner_exemption": [r"Homeowner'?s?\s+Exemption"],
    "use_code": [r"Use\s*Code"],
    "year_built": [r"Year\s*Built"],
    "living_sqft": [r"Living\s*Area", r"Building\s*Area", r"Sq\s*Ft"],
    "lot_sqft": [r"Lot\s*(Area|Size|Square\s*Feet)"],
    "doc_number": [r"Document\s*(No\.?|Number)|Doc\s*#"],
    "recording_date": [r"(Recording|Transfer)\s*Date"],
    "sales_price": [r"(Sales|Indicated)\s*(Price|Net\s*Value)"],
    "assessed_land": [r"Land\s*Value"],
    "assessed_impr": [r"(Improvement|Improvements)\s*Value"],
    "assessed_total": [r"Total\s*(Assessed\s*)?Value"],
    "assessed_year": [r"(Roll|Tax|Assessment)\s*Year"],
  \<close>
\<close>

definition LABEL_ALIASES :: "(string \<times> rx list) list" where
  "LABEL_ALIASES =
   [(''apn'',
       [cat [Bnd, Lit ''APN'', Bnd],
        cat [Lit ''Assessor'', Opt (Lit [CHR 0x27]), Opt (Lit ''s''), Plus Space,
             Lit ''Parcel'', Plus Space, Lit ''Number'']]),
    (''situs_address'',
       [cat [Lit ''Situs'', Plus Space, Lit ''Address''],
        cat [Lit ''Property'', Plus Space, Lit ''Address'']]),
    (''mailing_address'', [cat [Lit ''Mailing'', Plus Space, Lit ''Address'']]),
    (''owner_name'',
       [cat [Lit ''Owner'', Star Space, Lit ''Name''],
        cat [Lit ''Assessee'', Star Space, Lit ''Name'']]),
    (''homeowner_exemption'',
       [cat [Lit ''Homeowner'', Opt (Lit [CHR 0x27]), Opt (Lit ''s''), Plus Space,
             Lit ''Exemption'']]),
    (''use_code'', [cat [Lit ''Use'', Star Space, Lit ''Code'']]),
    (''year_built'', [cat [Lit ''Year'', Star Space, Lit ''Built'']]),
    (''living_sqft'',
       [cat [Lit ''Living'', Star Space, Lit ''Area''],
        cat [Lit ''Building'', Star Space, Lit ''Area''],
        cat [Lit ''Sq'', Star Space, Lit ''Ft'']]),
    (''lot_sqft'',
       [cat [Lit ''Lot'', Star Space,
             Grp 1 (Alt (Lit ''Area'') (Alt (Lit ''Size'')
                      (cat [Lit ''Square'', Star Space, Lit ''Feet''])))]]),
    (''doc_number'',
       [Alt (cat [Lit ''Document'', Star Space,
                  Grp 1 (Alt (cat [Lit ''No'', Opt (Lit ''.'')]) (Lit ''Number''))])
            (cat [Lit ''Doc'', Star Space, Lit ''#''])]),
    (''recording_date'',
       [cat [Grp 1 (Alt (Lit ''Recording'') (Lit ''Transfer'')), Star Space, Lit ''Date'']]),
    (''sales_price'',
       [cat [Grp 1 (Alt (Lit ''Sales'') (Lit ''Indicated'')), Star Space,
             Grp 2 (Alt (Lit ''Price'') (cat [Lit ''Net'', Star Space, Lit ''Value'']))]]),
    (''assessed_land'', [cat [Lit ''Land'', Star Space, Lit ''Value'']]),
    (''assessed_impr'',
       [cat [Grp 1 (Alt (Lit ''Improvement'') (Lit ''Improvements'')), Star Space,
             Lit ''Value'']]),
    (''assessed_total'',
       [cat [Lit ''Total'', Star Space, Opt (Grp 1 (cat [Lit ''Assessed'', Star Space])),
             Lit ''Value'']]),
    (''assessed_year'',
       [cat [Grp 1 (Alt (Lit ''Roll'') (Alt (Lit ''Tax'') (Lit ''Assessment''))), Star Space,
             Lit ''Year'']])]"

definition aliases :: "string \<Rightarrow> rx list" where
  \<comment> \<open>\<open>_LABEL_ALIASES[key]\<close>, for the keys the program writes\<close>
  "aliases key = (case map_of LABEL_ALIASES key of None \<Rightarrow> [] | Some ps \<Rightarrow> ps)"

type_synonym kv = "(string \<times> string) list"
  \<comment> \<open>the dictionary \<open>kv\<close> in insertion order, which is the order \<open>kv.items()\<close> yields\<close>

definition setdefault :: "string \<Rightarrow> string \<Rightarrow> kv \<Rightarrow> kv" where
  \<comment> \<open>\<open>kv.setdefault(k, v)\<close>\<close>
  "setdefault k v m = (if k \<in> fst ` set m then m else m @ [(k, v)])"

definition harvest_row :: "kv \<Rightarrow> node \<Rightarrow> kv" where
  \<comment> \<open>the body of the loop over the table rows\<close>
  "harvest_row m tr =
     (let cells = find_all [''th'', ''td''] tr in
      if length cells = 2 then
        (let k = get_text (cells ! 0); v = get_text (cells ! 1) in
         if k \<noteq> [] \<and> v \<noteq> [] then setdefault k v m else m)
      else if length cells \<ge> 2 then
        (let k = get_text (hd cells); v = join '' '' (map get_text (tl cells)) in
         if k \<noteq> [] \<and> v \<noteq> [] then setdefault k v m else m)
      else m)"

definition harvest :: "node \<Rightarrow> kv" where
  \<comment> \<open>\<open>kv\<close> after the loop \<open>for tr in soup.find_all("tr")\<close>\<close>
  "harvest soup = foldl harvest_row [] (find_all [''tr''] soup)"

definition kv_hit :: "kv \<Rightarrow> rx \<Rightarrow> string option" where
  \<comment> \<open>the loop over \<open>kv.items()\<close>: the value of the first key the pattern is found in, if
      that value is not empty\<close>
  "kv_hit m pat =
     map_option snd (find (\<lambda>(k, v). re_found True pat k \<and> v \<noteq> []) m)"

definition doc_hit :: "node \<Rightarrow> rx \<Rightarrow> string option" where
  \<comment> \<open>the loose search: the first text node of the document the pattern is found in, and
      the text of the tag that follows its parent\<close>
  "doc_hit soup pat =
     (case find_string (re_found True pat) [] (children soup) of
        None \<Rightarrow> None
      | Some (lab, sibs) \<Rightarrow>
          if lab = [] then None
          else (case find_next_sibling sibs of
                  None \<Rightarrow> None
                | Some sib \<Rightarrow>
                    (let txt = get_text sib in if txt \<noteq> [] then Some txt else None)))"

fun find_first :: "kv \<Rightarrow> node \<Rightarrow> rx list \<Rightarrow> string option" where
  "find_first m soup [] = None"
| "find_first m soup (pat # pats) =
     (case kv_hit m pat of
        Some v \<Rightarrow> Some v
      | None \<Rightarrow>
          (case doc_hit soup pat of
             Some txt \<Rightarrow> Some txt
           | None \<Rightarrow> find_first m soup pats))"

definition money_rx :: rx where
  \<comment> \<open>\<open>r"\$?\s*([\d,]+)"\<close>\<close>
  "money_rx = cat [Opt (Lit ''$''), Star Space, Grp 1 (Plus (OneOf ''0123456789,''))]"

definition py_int :: "string \<Rightarrow> error + int" where
  \<comment> \<open>\<open>int(s)\<close> for a string of decimal digits: the empty string is a ValueError\<close>
  "py_int s = (if s = [] then Inl ValueError else Inr (digits_value s))"

definition normalize_money :: "string option \<Rightarrow> error + int option" where
  "normalize_money val =
     (case val of
        None \<Rightarrow> Inr None
      | Some v \<Rightarrow>
          if v = [] then Inr None
          else (case re_search False money_rx v of
                  None \<Rightarrow> Inr None
                | Some m \<Rightarrow>
                    (case py_int (filter (\<lambda>c. c \<noteq> CHR '','') (group m 1)) of
                       Inl e \<Rightarrow> Inl e
                     | Inr n \<Rightarrow> Inr (Some n))))"

definition year_rx :: rx where
  \<comment> \<open>\<open>r"(\d{4})"\<close>\<close>
  "year_rx = Grp 1 (Rep 4 Digit)"

definition safe_int :: "string option \<Rightarrow> int option" where
  "safe_int s =
     (case s of
        None \<Rightarrow> None
      | Some v \<Rightarrow>
          if v = [] then None
          else (case re_search False year_rx v of
                  None \<Rightarrow> None
                | Some m \<Rightarrow> Some (digits_value (group m 1))))"

definition city_state_zip_rx :: rx where
  \<comment> \<open>\<open>r"^\s*([^,]+)\s*,\s*([A-Z]{2})\s+(\d{5}(?:-\d{4})?)"\<close>\<close>
  "city_state_zip_rx =
     cat [Bol, Star Space, Grp 1 (Plus (NoneOf '','')), Star Space, Lit '','', Star Space,
          Grp 2 (Rep 2 UpperAZ), Plus Space,
          Grp 3 (cat [Rep 5 Digit, Opt (cat [Lit ''-'', Rep 4 Digit])])]"

definition split_city_state_zip ::
  "string option \<Rightarrow> string option \<times> string option \<times> string option" where
  "split_city_state_zip full =
     (case full of
        None \<Rightarrow> (None, None, None)
      | Some v \<Rightarrow>
          if v = [] then (None, None, None)
          else (case re_search False city_state_zip_rx v of
                  Some m \<Rightarrow> (Some (strip (group m 1)), Some (group m 2), Some (group m 3))
                | None \<Rightarrow> (None, None, None)))"

definition or_CA :: "string option \<Rightarrow> string option" where
  \<comment> \<open>\<open>st or "CA"\<close>\<close>
  "or_CA st = (if nonempty st then st else Some ''CA'')"

definition mailing_of :: "string option \<Rightarrow> address" where
  \<comment> \<open>the block "Owner mailing address" of \<open>parse_property_page\<close>\<close>
  "mailing_of mailing_block =
     (if nonempty mailing_block then
        (let lines = split_lines (the mailing_block) in
         if lines \<noteq> [] then
           (case split_city_state_zip (Some (last lines)) of (c, st, z) \<Rightarrow>
              \<lparr>street = (if length lines \<ge> 2 then Some (lines ! (length lines - 2)) else None),
               city = c, state = st, zipcode = z\<rparr>)
         else no_address)
      else no_address)"

definition situs_of :: "string option \<Rightarrow> address" where
  \<comment> \<open>the block "Situs address" of \<open>parse_property_page\<close>\<close>
  "situs_of situs_full =
     (if nonempty situs_full then
        (let parts = split_lines (the situs_full) in
         if length parts = 1 then
           (if CHR '','' \<in> set (parts ! 0) then
              (let street = takeWhile (\<lambda>c. c \<noteq> CHR '','') (parts ! 0);
                   rest = tl (dropWhile (\<lambda>c. c \<noteq> CHR '','') (parts ! 0))
               in case split_city_state_zip (Some (strip rest)) of (c, st, z) \<Rightarrow>
                    \<lparr>street = Some (strip street), city = c, state = or_CA st, zipcode = z\<rparr>)
            else \<lparr>street = Some (parts ! 0), city = None, state = None, zipcode = None\<rparr>)
         else if length parts \<ge> 2 then
           (case split_city_state_zip (Some (parts ! 1)) of (c, st, z) \<Rightarrow>
              \<lparr>street = Some (parts ! 0), city = c, state = or_CA st, zipcode = z\<rparr>)
         else no_address)
      else no_address)"

definition affirmative_rx :: rx where
  \<comment> \<open>\<open>r"\b(yes|y|true)\b"\<close>\<close>
  "affirmative_rx =
     cat [Bnd, Grp 1 (Alt (Lit ''yes'') (Alt (Lit ''y'') (Lit ''true''))), Bnd]"

definition parse_soup :: "node \<Rightarrow> error + property" where
  \<comment> \<open>\<open>parse_property_page\<close> after the document has been parsed\<close>
  "parse_soup soup =
     (let m = harvest soup;
          ff = (\<lambda>key. find_first m soup (aliases key));
          mailing = mailing_of (ff ''mailing_address'');
          situs = situs_of (ff ''situs_address'');
          owner_name = ff ''owner_name'';
          hx_text = ff ''homeowner_exemption'';
          hx = (if nonempty hx_text then Some (re_found True affirmative_rx (the hx_text))
                else None);
          use = ff ''use_code'';
          built = safe_int (ff ''year_built'')
      in
      case normalize_money (ff ''living_sqft'') of Inl e \<Rightarrow> Inl e | Inr living \<Rightarrow>
      case normalize_money (ff ''lot_sqft'') of Inl e \<Rightarrow> Inl e | Inr lot \<Rightarrow>
      let doc_no = ff ''doc_number'';
          rec_date = ff ''recording_date''
      in
      case normalize_money (ff ''sales_price'') of Inl e \<Rightarrow> Inl e | Inr sale \<Rightarrow>
      case normalize_money (ff ''assessed_land'') of Inl e \<Rightarrow> Inl e | Inr lnd \<Rightarrow>
      case normalize_money (ff ''assessed_impr'') of Inl e \<Rightarrow> Inl e | Inr impr \<Rightarrow>
      case normalize_money (ff ''assessed_total'') of Inl e \<Rightarrow> Inl e | Inr tot \<Rightarrow>
      let ytxt = ff ''assessed_year'';
          yr = (if nonempty ytxt then safe_int ytxt else None)
      in
      Inr \<lparr>apn = of_opt (ff ''apn''),
           situs_address = situs,
           owner_names = (if nonempty owner_name then [the owner_name] else []),
           owner_mailing_address = mailing,
           owner_type = classify_owner_type owner_name,
           last_transfer = \<lparr>recording_date = rec_date, doc_number = doc_no, price = sale\<rparr>,
           assessed_values = \<lparr>land = lnd, improvements = impr, total = tot, year = yr\<rparr>,
           homeowner_exemption = hx,
           property_details =
             \<lparr>use_code = use, year_built = built, living_sqft = living, lot_sqft = lot\<rparr>,
           recorder_doc_url = (if nonempty doc_no then Some RECORDER_SEARCH_LANDING else None)\<rparr>)"

definition parse_property_page :: "string \<Rightarrow> error + property" where
  "parse_property_page html = parse_soup (BeautifulSoup html)"

definition DEMO_HTML :: string where
  "DEMO_HTML = ''
<html><body>
<table>
<tr><th>APN</th><td>235-12-003</td></tr>
<tr><th>Situs Address</th><td>123 Sample St<br>San Jose, CA 95123</td></tr>
<tr><th>Mailing Address</th><td>JANE DOE TRUST<br>PO BOX 1234<br>San Jose, CA 95123</td></tr>
<tr><th>Homeowner's Exemption</th><td>Yes</td></tr>
<tr><th>Use Code</th><td>SFR</td></tr>
<tr><th>Year Built</th><td>1978</td></tr>
<tr><th>Living Area</th><td>1,234</td></tr>
<tr><th>Lot Area</th><td>6,098</td></tr>
<tr><th>Document Number</th><td>12345678</td></tr>
<tr><th>Recording Date</th><td>06/15/2021</td></tr>
<tr><th>Sales Price</th><td>$1,250,000</td></tr>
</table>
<table>
<tr><th>Roll Year</th><td>2024</td></tr>
<tr><th>Land Value</th><td>$900,000</td></tr>
<tr><th>Improvements Value</th><td>$450,000</td></tr>
<tr><th>Total Assessed Value</th><td>$1,350,000</td></tr>
</table>
</body></html>
''"

definition DEMO_SOUP :: node where
  \<comment> \<open>the tree of the sample page\<close>
  "DEMO_SOUP =
     Tag ''[document]''
      [Text [CHR 0x0A],
       Tag ''html''
        [Tag ''body''
          [Text [CHR 0x0A],
           Tag ''table''
            [Text [CHR 0x0A],
             Tag ''tr''
              [Tag ''th'' [Text ''APN''],
               Tag ''td'' [Text ''235-12-003'']],
             Text [CHR 0x0A],
             Tag ''tr''
              [Tag ''th'' [Text ''Situs Address''],
               Tag ''td'' [Text ''123 Sample St'', Tag ''br'' [], Text ''San Jose, CA 95123'']],
             Text [CHR 0x0A],
             Tag ''tr''
              [Tag ''th'' [Text ''Mailing Address''],
               Tag ''td'' [Text ''JANE DOE TRUST'', Tag ''br'' [], Text ''PO BOX 1234'', Tag ''br'' [], Text ''San Jose, CA 95123'']],
             Text [CHR 0x0A],
             Tag ''tr''
              [Tag ''th'' [Text ''Homeowner's Exemption''],
               Tag ''td'' [Text ''Yes'']],
             Text [CHR 0x0A],
             Tag ''tr''
              [Tag ''th'' [Text ''Use Code''],
               Tag ''td'' [Text ''SFR'']],
             Text [CHR 0x0A],
             Tag ''tr''
              [Tag ''th'' [Text ''Year Built''],
               Tag ''td'' [Text ''1978'']],
             Text [CHR 0x0A],
             Tag ''tr''
              [Tag ''th'' [Text ''Living Area''],
               Tag ''td'' [Text ''1,234'']],
             Text [CHR 0x0A],
             Tag ''tr''
              [Tag ''th'' [Text ''Lot Area''],
               Tag ''td'' [Text ''6,098'']],
             Text [CHR 0x0A],
             Tag ''tr''
              [Tag ''th'' [Text ''Document Number''],
               Tag ''td'' [Text ''12345678'']],
             Text [CHR 0x0A],
             Tag ''tr''
              [Tag ''th'' [Text ''Recording Date''],
               Tag ''td'' [Text ''06/15/2021'']],
             Text [CHR 0x0A],
             Tag ''tr''
              [Tag ''th'' [Text ''Sales Price''],
               Tag ''td'' [Text ''$1,250,000'']],
             Text [CHR 0x0A]],
           Text [CHR 0x0A],
           Tag ''table''
            [Text [CHR 0x0A],
             Tag ''tr''
              [Tag ''th'' [Text ''Roll Year''],
               Tag ''td'' [Text ''2024'']],
             Text [CHR 0x0A],
             Tag ''tr''
              [Tag ''th'' [Text ''Land Value''],
               Tag ''td'' [Text ''$900,000'']],
             Text [CHR 0x0A],
             Tag ''tr''
              [Tag ''th'' [Text ''Improvements Value''],
               Tag ''td'' [Text ''$450,000'']],
             Text [CHR 0x0A],
             Tag ''tr''
              [Tag ''th'' [Text ''Total Assessed Value''],
               Tag ''td'' [Text ''$1,350,000'']],
             Text [CHR 0x0A]],
           Text [CHR 0x0A]]],
       Text [CHR 0x0A]]"

definition DEMO_KV :: kv where
  \<comment> \<open>the label-to-value mapping harvested from the sample page\<close>
  "DEMO_KV =
     [(''APN'', ''235-12-003''),
      (''Situs Address'', ''123 Sample St San Jose, CA 95123''),
      (''Mailing Address'', ''JANE DOE TRUST PO BOX 1234 San Jose, CA 95123''),
      (''Homeowner's Exemption'', ''Yes''),
      (''Use Code'', ''SFR''),
      (''Year Built'', ''1978''),
      (''Living Area'', ''1,234''),
      (''Lot Area'', ''6,098''),
      (''Document Number'', ''12345678''),
      (''Recording Date'', ''06/15/2021''),
      (''Sales Price'', ''$1,250,000''),
      (''Roll Year'', ''2024''),
      (''Land Value'', ''$900,000''),
      (''Improvements Value'', ''$450,000''),
      (''Total Assessed Value'', ''$1,350,000'')]"

subsection \<open>Query classification\<close>

definition is_probable_apn :: "string \<Rightarrow> bool" where
  \<comment> \<open>\<open>s = re.sub(r"[\s-]", "", text); bool(re.fullmatch(r"\d{8,12}", s))\<close>\<close>
  "is_probable_apn text =
     (let s = filter (\<lambda>c. \<not> (is_space c \<or> c = CHR ''-'')) text
      in list_all is_digit s \<and> 8 \<le> length s \<and> length s \<le> 12)"

definition normalize_apn :: "string \<Rightarrow> string" where
  \<comment> \<open>\<open>digits = re.sub(r"\D", "", text)\<close>; nine digits are written
      \<open>digits[0:3]-digits[3:5]-digits[5:9]\<close>, anything else is \<open>text.strip()\<close>\<close>
  "normalize_apn text =
     (let digits = filter is_digit text
      in if length digits = 9
         then take 3 digits @ ''-'' @ take 2 (drop 3 digits) @ ''-'' @ take 4 (drop 5 digits)
         else strip text)"

subsection \<open>The remote services\<close>

text \<open>
  A JSON object of the services is an association list from keys to members; a member is a
  scalar or an object of scalars (features and geocode candidates have this shape when
  geometry is not requested). The session answers each call with a failure (any
  \<open>requests.RequestException\<close>: transport error, error status, a body that is not JSON) or
  with the body; the answer may depend on the calls made before. Every function that
  calls a service takes the list of calls made so far and returns it extended, so that the
  calls of a run can be counted. The fixed delay before each call has no effect on results
  and is left out.
\<close>

type_synonym attrs = "(string \<times> pyval) list"

datatype member = Scalar pyval | Object attrs

type_synonym jobject = "(string \<times> member) list"

datatype call =
    ParcelByApn string            \<comment> \<open>feature query \<open>APN='...'\<close>\<close>
  | ParcelByApnLike string        \<comment> \<open>feature query \<open>APN LIKE '%...%'\<close>\<close>
  | ParcelByPoint pyval pyval pyval  \<comment> \<open>feature query by point x, y and wkid\<close>
  | GeocodeAddress string         \<comment> \<open>findAddressCandidates\<close>
  | AssessorGet string            \<comment> \<open>GET of the APN redirect page for an identifier\<close>

datatype 'a reply = Failed | Ok 'a

record session =
  parcel_service :: "call list \<Rightarrow> call \<Rightarrow> jobject list option reply"
    \<comment> \<open>the member \<open>features\<close> of the body (\<open>None\<close>: absent or null)\<close>
  geocode_service :: "call list \<Rightarrow> call \<Rightarrow> jobject list option reply"
    \<comment> \<open>the member \<open>candidates\<close> of the body\<close>
  assessor_site :: "call list \<Rightarrow> call \<Rightarrow> string reply"
    \<comment> \<open>the text of the page\<close>


definition is_page_fetch :: "call \<Rightarrow> bool" where
  "is_page_fetch c = (case c of AssessorGet a \<Rightarrow> True | _ \<Rightarrow> False)"

definition first_feature :: "jobject list option reply \<Rightarrow> jobject option" where
  \<comment> \<open>\<open>feats = js.get("features") or []; return feats[0] if feats else None\<close>, and
      \<open>None\<close> when the request failed\<close>
  "first_feature r =
     (case r of
        Failed \<Rightarrow> None
      | Ok None \<Rightarrow> None
      | Ok (Some []) \<Rightarrow> None
      | Ok (Some (f # fs)) \<Rightarrow> Some f)"

definition arcgis_query_parcel_by_apn ::
  "session \<Rightarrow> call list \<Rightarrow> string \<Rightarrow> call list \<times> jobject option" where
  "arcgis_query_parcel_by_apn sess log a =
     (log @ [ParcelByApn a], first_feature (parcel_service sess log (ParcelByApn a)))"

definition arcgis_query_parcel_by_apn_like ::
  "session \<Rightarrow> call list \<Rightarrow> string \<Rightarrow> call list \<times> jobject option" where
  "arcgis_query_parcel_by_apn_like sess log bare_digits =
     (log @ [ParcelByApnLike bare_digits],
      first_feature (parcel_service sess log (ParcelByApnLike bare_digits)))"

definition arcgis_query_parcel_by_point ::
  "session \<Rightarrow> call list \<Rightarrow> pyval \<Rightarrow> pyval \<Rightarrow> pyval \<Rightarrow> call list \<times> jobject option" where
  "arcgis_query_parcel_by_point sess log x y wkid =
     (log @ [ParcelByPoint x y wkid],
      first_feature (parcel_service sess log (ParcelByPoint x y wkid)))"

definition score_of :: "jobject \<Rightarrow> error + int" where
  \<comment> \<open>\<open>c.get("score", 0)\<close> as a number that can be compared with 70; comparing anything
      but a number is a TypeError\<close>
  "score_of c =
     (case map_of c ''score'' of
        None \<Rightarrow> Inr 0
      | Some (Scalar (PInt n)) \<Rightarrow> Inr n
      | Some (Scalar (PBool b)) \<Rightarrow> Inr (if b then 1 else 0)
      | Some _ \<Rightarrow> Inl TypeError)"

definition score :: "jobject \<Rightarrow> int" where
  \<comment> \<open>the sort key, for a candidate whose score is a number\<close>
  "score c = (case score_of c of Inl e \<Rightarrow> 0 | Inr n \<Rightarrow> n)"

definition viable :: "jobject list \<Rightarrow> jobject list" where
  \<comment> \<open>\<open>cands = [c for c in cands if c.get("score", 0) >= 70]\<close> followed by
      \<open>cands.sort(key=lambda c: c.get("score", 0), reverse=True)\<close>: Python's sort is
      stable, and with \<open>reverse=True\<close> equal keys keep their original order\<close>
  "viable cands = sort_key (\<lambda>c. - score c) (filter (\<lambda>c. score c \<ge> 70) cands)"

definition dict_setdefault :: "string \<Rightarrow> member \<Rightarrow> jobject \<Rightarrow> jobject" where
  \<comment> \<open>\<open>d.setdefault(k, v)\<close>\<close>
  "dict_setdefault k v d = (if k \<in> fst ` set d then d else d @ [(k, v)])"

definition patch_candidate :: "jobject \<Rightarrow> jobject" where
  \<comment> \<open>the "patches to ensure expected keys exist" on the top candidate\<close>
  "patch_candidate c =
     dict_setdefault ''spatialReference'' (Object [(''wkid'', PInt 4326)])
       (dict_setdefault ''attributes'' (Object [])
          (dict_setdefault ''location'' (Object []) c))"

definition arcgis_geocode_address ::
  "session \<Rightarrow> call list \<Rightarrow> string \<Rightarrow> call list \<times> (error + jobject option)" where
  "arcgis_geocode_address sess log address =
     (log @ [GeocodeAddress address],
      (case geocode_service sess log (GeocodeAddress address) of
         Failed \<Rightarrow> Inr None
       | Ok body \<Rightarrow>
           (let cands = (case body of None \<Rightarrow> [] | Some cs \<Rightarrow> cs) in
            if list_ex (\<lambda>c. score_of c = Inl TypeError) cands then Inl TypeError
            else (case viable cands of
                    [] \<Rightarrow> Inr None
                  | c # rest \<Rightarrow> Inr (Some (patch_candidate c))))))"

subsection \<open>extract_situs_from_feature\<close>

function str_nat :: "nat \<Rightarrow> string" where
  \<comment> \<open>the decimal digits of a number\<close>
  "str_nat n =
     (if n < 10 then [char_of (48 + n)] else str_nat (n div 10) @ [char_of (48 + n mod 10)])"
  by pat_completeness auto
termination
  by (relation "measure id") auto

definition py_str :: "pyval \<Rightarrow> string" where
  \<comment> \<open>\<open>str(v)\<close>\<close>
  "py_str v =
     (case v of
        PNone \<Rightarrow> ''None''
      | PBool b \<Rightarrow> (if b then ''True'' else ''False'')
      | PInt i \<Rightarrow> (if i < 0 then ''-'' @ str_nat (nat (- i)) else str_nat (nat i))
      | PStr s \<Rightarrow> s)"

definition attributes_or_empty :: "jobject \<Rightarrow> error + attrs" where
  \<comment> \<open>\<open>a = obj.get("attributes") or {}\<close>, as the object the following \<open>a.get(...)\<close> reads:
      a member that is a true scalar has no \<open>get\<close>, an AttributeError\<close>
  "attributes_or_empty obj =
     (case map_of obj ''attributes'' of
        None \<Rightarrow> Inr []
      | Some (Object a) \<Rightarrow> Inr a
      | Some (Scalar v) \<Rightarrow> if truthy v then Inl AttributeError else Inr [])"

definition tval :: "attrs \<Rightarrow> string \<Rightarrow> string option" where
  \<comment> \<open>\<open>v = a.get(k); v.strip() if isinstance(v, str) else
      (str(v).strip() if v is not None else None)\<close>\<close>
  "tval a k =
     (case map_of a k of
        None \<Rightarrow> None
      | Some PNone \<Rightarrow> None
      | Some (PStr s) \<Rightarrow> Some (strip s)
      | Some v \<Rightarrow> Some (strip (py_str v)))"

definition or_empty :: "string option \<Rightarrow> string" where
  \<comment> \<open>\<open>v or ""\<close>\<close>
  "or_empty v = (case v of None \<Rightarrow> [] | Some s \<Rightarrow> s)"

definition or_none :: "string \<Rightarrow> string option" where
  \<comment> \<open>\<open>s or None\<close>\<close>
  "or_none s = (if s = [] then None else Some s)"

fun replace_double_blank :: "string \<Rightarrow> string" where
  \<comment> \<open>\<open>s.replace("  ", " ")\<close>: one pass from the left\<close>
  "replace_double_blank (a # b # r) =
     (if a = CHR '' '' \<and> b = CHR '' '' then CHR '' '' # replace_double_blank r
      else a # replace_double_blank (b # r))"
| "replace_double_blank s = s"

record situs = address +
  situs_apn :: "string option"   \<comment> \<open>the key \<open>apn\<close> of the situs dictionary\<close>

definition extract_situs_from_feature :: "jobject option \<Rightarrow> error + situs option" where
  "extract_situs_from_feature feature =
     (case feature of
        None \<Rightarrow> Inr None
      | Some f \<Rightarrow>
          if f = [] then Inr None
          else (case attributes_or_empty f of
                  Inl e \<Rightarrow> Inl e
                | Inr a \<Rightarrow>
                    (let street_parts =
                           [or_empty (tval a ''SITUS_HOUSE_NUMBER''),
                            or_empty (tval a ''SITUS_HOUSE_NUMBER_SUFFIX''),
                            or_empty (tval a ''SITUS_STREET_DIRECTION''),
                            or_empty (tval a ''SITUS_STREET_NAME''),
                            or_empty (tval a ''SITUS_STREET_TYPE''),
                            (if nonempty (tval a ''SITUS_UNIT_NUMBER'')
                             then ''Unit '' @ or_empty (tval a ''SITUS_UNIT_NUMBER'') else [])];
                         st = strip (replace_double_blank
                                (join '' '' (filter (\<lambda>s. s \<noteq> []) street_parts)))
                     in Inr (Some \<lparr>street = or_none st,
                                   city = tval a ''SITUS_CITY_NAME'',
                                   state = Some (if nonempty (tval a ''SITUS_STATE_CODE'')
                                                 then or_empty (tval a ''SITUS_STATE_CODE'')
                                                 else ''CA''),
                                   zipcode = or_none (or_empty (tval a ''SITUS_ZIP_CODE'')),
                                   situs_apn = tval a ''APN''\<rparr>))))"

subsection \<open>search_property\<close>

record RawSearchResult =
  raw_apn :: pyval                       \<comment> \<open>the field \<open>apn\<close>\<close>
  situs :: "situs option"
  parcel_feature :: "jobject option"
  assessor_html :: "string option"

definition present :: "jobject option \<Rightarrow> bool" where
  \<comment> \<open>the truth value of a feature: not \<open>None\<close> and not the empty dictionary\<close>
  "present feature = (case feature of None \<Rightarrow> False | Some f \<Rightarrow> f \<noteq> [])"

definition situs_if_present :: "jobject option \<Rightarrow> error + situs option" where
  \<comment> \<open>\<open>extract_situs_from_feature(feature) if feature else None\<close>\<close>
  "situs_if_present feature =
     (if present feature then extract_situs_from_feature feature else Inr None)"

definition attr_get_APN :: "jobject \<Rightarrow> error + pyval" where
  \<comment> \<open>\<open>feature["attributes"].get("APN")\<close>\<close>
  "attr_get_APN f =
     (case map_of f ''attributes'' of
        None \<Rightarrow> Inl KeyError
      | Some (Scalar v) \<Rightarrow> Inl AttributeError
      | Some (Object a) \<Rightarrow> Inr (case map_of a ''APN'' of None \<Rightarrow> PNone | Some v \<Rightarrow> v))"

definition attr_index_APN :: "jobject \<Rightarrow> error + pyval" where
  \<comment> \<open>\<open>feature["attributes"]["APN"]\<close>\<close>
  "attr_index_APN f =
     (case map_of f ''attributes'' of
        None \<Rightarrow> Inl KeyError
      | Some (Scalar v) \<Rightarrow> Inl TypeError
      | Some (Object a) \<Rightarrow> (case map_of a ''APN'' of None \<Rightarrow> Inl KeyError | Some v \<Rightarrow> Inr v))"

definition location_xy :: "jobject \<Rightarrow> error + pyval \<times> pyval" where
  \<comment> \<open>\<open>x = geo["location"].get("x"); y = geo["location"].get("y")\<close>\<close>
  "location_xy geo =
     (case map_of geo ''location'' of
        None \<Rightarrow> Inl KeyError
      | Some (Scalar v) \<Rightarrow> Inl AttributeError
      | Some (Object a) \<Rightarrow>
          Inr ((case map_of a ''x'' of None \<Rightarrow> PNone | Some v \<Rightarrow> v),
               (case map_of a ''y'' of None \<Rightarrow> PNone | Some v \<Rightarrow> v)))"

definition spatial_wkid :: "jobject \<Rightarrow> error + pyval" where
  \<comment> \<open>\<open>(geo.get("spatialReference") or {}).get("wkid", 4326)\<close>\<close>
  "spatial_wkid geo =
     (case map_of geo ''spatialReference'' of
        None \<Rightarrow> Inr (PInt 4326)
      | Some (Scalar v) \<Rightarrow> if truthy v then Inl AttributeError else Inr (PInt 4326)
      | Some (Object a) \<Rightarrow>
          Inr (case map_of a ''wkid'' of None \<Rightarrow> PInt 4326 | Some v \<Rightarrow> v))"

definition fetch_assessor ::
  "session \<Rightarrow> call list \<Rightarrow> pyval \<Rightarrow> call list \<times> (error + string option)" where
  \<comment> \<open>the block "Hit assessor page": no request for an identifier that is not true;
      \<open>quote_plus\<close> of a value that is not a string is a TypeError; a failed request leaves
      the markup \<open>None\<close>\<close>
  "fetch_assessor sess log resolved_apn =
     (if \<not> truthy resolved_apn then (log, Inr None)
      else (case resolved_apn of
              PStr a \<Rightarrow>
                (log @ [AssessorGet a],
                 Inr (case assessor_site sess log (AssessorGet a) of
                        Failed \<Rightarrow> None
                      | Ok txt \<Rightarrow> Some txt))
            | _ \<Rightarrow> (log, Inl TypeError)))"

definition finish_search ::
  "session \<Rightarrow> call list \<Rightarrow> pyval \<Rightarrow> jobject option \<Rightarrow> call list \<times> (error + RawSearchResult)" where
  \<comment> \<open>the common tail of both paths: the situs of the feature, the page fetch, the
      result\<close>
  "finish_search sess log resolved_apn feature =
     (case situs_if_present feature of
        Inl e \<Rightarrow> (log, Inl e)
      | Inr sit \<Rightarrow>
          (case fetch_assessor sess log resolved_apn of
             (log', Inl e) \<Rightarrow> (log', Inl e)
           | (log', Inr html) \<Rightarrow>
               (log', Inr \<lparr>raw_apn = resolved_apn, situs = sit,
                           parcel_feature = feature, assessor_html = html\<rparr>)))"

definition exact_then_like ::
  "session \<Rightarrow> call list \<Rightarrow> string \<Rightarrow> string \<Rightarrow> call list \<times> jobject option" where
  \<comment> \<open>\<open>feature = arcgis_query_parcel_by_apn(a); if not feature: feature =
      arcgis_query_parcel_by_apn_like(bare)\<close>, as both paths have it\<close>
  "exact_then_like sess log a bare =
     (case arcgis_query_parcel_by_apn sess log a of
        (log1, feature) \<Rightarrow>
          if \<not> present feature then arcgis_query_parcel_by_apn_like sess log1 bare
          else (log1, feature))"

definition spatial_intersect ::
  "session \<Rightarrow> call list \<Rightarrow> jobject \<Rightarrow> pyval \<Rightarrow> jobject option
     \<Rightarrow> call list \<times> (error + pyval \<times> jobject option)" where
  \<comment> \<open>the block "Second try": entered when no feature was found so far; it yields the
      identifier and the feature\<close>
  "spatial_intersect sess log geo resolved_apn feature =
     (case location_xy geo of
        Inl e \<Rightarrow> (log, Inl e)
      | Inr (x, y) \<Rightarrow>
          (case spatial_wkid geo of
             Inl e \<Rightarrow> (log, Inl e)
           | Inr in_wkid \<Rightarrow>
               if x \<noteq> PNone \<and> y \<noteq> PNone then
                 (case arcgis_query_parcel_by_point sess log x y in_wkid of
                    (log1, f) \<Rightarrow>
                      if present f then
                        (case attr_index_APN (the f) of
                           Inl e \<Rightarrow> (log1, Inl e)
                         | Inr v \<Rightarrow> (log1, Inr (v, f)))
                      else (log1, Inr (PNone, f)))
               else (log, Inr (resolved_apn, feature))))"

definition search_address ::
  "session \<Rightarrow> call list \<Rightarrow> jobject \<Rightarrow> call list \<times> (error + RawSearchResult)" where
  \<comment> \<open>the address path after a geocode candidate was found\<close>
  "search_address sess log geo =
     (case attributes_or_empty geo of
        Inl e \<Rightarrow> (log, Inl e)
      | Inr a \<Rightarrow>
          (let v1 = (case map_of a ''APN'' of None \<Rightarrow> PNone | Some v \<Rightarrow> v);
               apn_from_geo =
                 (if truthy v1 then v1
                  else (case map_of a ''apn'' of None \<Rightarrow> PNone | Some v \<Rightarrow> v));
               first_try =
                 (if truthy apn_from_geo then
                    (let apn_norm = normalize_apn (py_str apn_from_geo) in
                     case exact_then_like sess log apn_norm (filter is_digit apn_norm) of
                       (log1, feature) \<Rightarrow>
                         if present feature then
                           (case attr_get_APN (the feature) of
                              Inl e \<Rightarrow> (log1, Inl e)
                            | Inr v \<Rightarrow> (log1, Inr (v, feature)))
                         else (log1, Inr (PNone, feature)))
                  else (log, Inr (PNone, None)))
           in case first_try of
                (log1, Inl e) \<Rightarrow> (log1, Inl e)
              | (log1, Inr (resolved_apn, feature)) \<Rightarrow>
                  if \<not> present feature then
                    (case spatial_intersect sess log1 geo resolved_apn feature of
                       (log2, Inl e) \<Rightarrow> (log2, Inl e)
                     | (log2, Inr (resolved_apn', feature')) \<Rightarrow>
                         finish_search sess log2 resolved_apn' feature')
                  else finish_search sess log1 resolved_apn feature))"

definition search_property :: "session \<Rightarrow> string \<Rightarrow> call list \<times> (error + RawSearchResult)" where
  \<comment> \<open>the result and the calls made, in order\<close>
  "search_property sess query0 =
     (let query = strip query0 in
      if is_probable_apn query then
        (let apn_dashed = normalize_apn query;
             resolved_apn = apn_dashed
         in case exact_then_like sess [] resolved_apn (filter is_digit query) of
              (log1, feature) \<Rightarrow> finish_search sess log1 (PStr resolved_apn) feature)
      else
        (case arcgis_geocode_address sess [] query of
           (log1, Inl e) \<Rightarrow> (log1, Inl e)
         | (log1, Inr None) \<Rightarrow>
             (log1, Inr \<lparr>raw_apn = PNone, situs = None, parcel_feature = None,
                         assessor_html = None\<rparr>)
         | (log1, Inr (Some geo)) \<Rightarrow> search_address sess log1 geo))"

subsection \<open>main\<close>

datatype source = Apn string | Address string
  \<comment> \<open>the mutually exclusive, required options \<open>--apn\<close> and \<open>--address\<close>\<close>

record outcome =
  written :: property
    \<comment> \<open>the record \<open>save_to_json\<close> writes to the output file\<close>
  situs_extra_apn :: "string option option"
    \<comment> \<open>the additional key \<open>apn\<close> inside \<open>situs_address\<close> of the written record: present
        (with its value) when the seeded record is written as it is and the search gave a
        situs\<close>
  exit_code :: nat

definition seed :: "RawSearchResult \<Rightarrow> property" where
  \<comment> \<open>the record seeded "with GIS-derived APN/situs skeleton"\<close>
  "seed raw =
     \<lparr>apn = raw_apn raw,
      situs_address = (case situs raw of None \<Rightarrow> no_address | Some s \<Rightarrow> address.truncate s),
      owner_names = [],
      owner_mailing_address = no_address,
      owner_type = None,
      last_transfer = \<lparr>recording_date = None, doc_number = None, price = None\<rparr>,
      assessed_values = \<lparr>land = None, improvements = None, total = None, year = None\<rparr>,
      homeowner_exemption = None,
      property_details =
        \<lparr>use_code = None, year_built = None, living_sqft = None, lot_sqft = None\<rparr>,
      recorder_doc_url = None\<rparr>"

definition merge :: "property \<Rightarrow> property \<Rightarrow> property" where
  \<comment> \<open>the block "Merge: prefer assessor values when present; fallback to GIS situs"\<close>
  "merge result parsed =
     \<lparr>apn = (if truthy (apn result) then apn result else apn parsed),
      situs_address =
        (if nonempty (street (situs_address parsed)) \<and> nonempty (city (situs_address parsed))
         then situs_address parsed else situs_address result),
      owner_names = owner_names parsed,
      owner_mailing_address = owner_mailing_address parsed,
      owner_type = owner_type parsed,
      last_transfer = last_transfer parsed,
      assessed_values = assessed_values parsed,
      homeowner_exemption = homeowner_exemption parsed,
      property_details = property_details parsed,
      recorder_doc_url = recorder_doc_url parsed\<rparr>"

definition query_of :: "source \<Rightarrow> string option" where
  \<comment> \<open>\<open>query = args.apn if args.apn else args.address\<close>: with \<open>--apn ""\<close> the query is
      the absent \<open>args.address\<close>, and \<open>assert query is not None\<close> fails\<close>
  "query_of src = (case src of Apn a \<Rightarrow> if a \<noteq> [] then Some a else None
                   | Address a \<Rightarrow> Some a)"

definition main :: "session \<Rightarrow> source \<Rightarrow> bool \<Rightarrow> call list \<times> (error + outcome)" where
  \<comment> \<open>the run of the program for the given option and \<open>--demo\<close> flag: the calls made, and
      either the exception that ends the run or what is written and the exit code\<close>
  "main sess src demo =
     (if demo then
        (case parse_property_page DEMO_HTML of
           Inl e \<Rightarrow> ([], Inl e)
         | Inr parsed \<Rightarrow>
             ([], Inr \<lparr>written =
                        (case src of
                           Apn a \<Rightarrow> if \<not> truthy (apn parsed) \<and> a \<noteq> []
                                    then parsed\<lparr>apn := PStr (normalize_apn a)\<rparr> else parsed
                         | Address a \<Rightarrow> parsed),
                      situs_extra_apn = None, exit_code = 0\<rparr>))
      else
        (case query_of src of
           None \<Rightarrow> ([], Inl AssertionError)
         | Some query \<Rightarrow>
             (case search_property sess query of
                (log, Inl e) \<Rightarrow> (log, Inl e)
              | (log, Inr raw) \<Rightarrow>
                  if \<not> truthy (raw_apn raw) \<and> \<not> nonempty (assessor_html raw) then
                    (log, Inr \<lparr>written = seed raw,
                               situs_extra_apn = map_option situs_apn (situs raw),
                               exit_code = 2\<rparr>)
                  else if nonempty (assessor_html raw) then
                    (case parse_property_page (the (assessor_html raw)) of
                       Inl e \<Rightarrow> (log, Inl e)
                     | Inr parsed \<Rightarrow>
                         (log, Inr \<lparr>written = merge (seed raw) parsed,
                                    situs_extra_apn = None, exit_code = 0\<rparr>))
                  else (log, Inr \<lparr>written = seed raw, situs_extra_apn = None,
                                   exit_code = 0\<rparr>))))"

subsection \<open>The affirmative token, in the specification's words\<close>

text \<open>
  A text has an affirmative token when one of the words yes, y, true, in any mix of upper
  and lower case, stands in it as a whole word: not preceded and not followed by a word
  character.
\<close>

definition ends_in_word :: "string \<Rightarrow> bool" where
  "ends_in_word pre = (pre \<noteq> [] \<and> is_word (last pre))"

definition starts_with_word :: "string \<Rightarrow> bool" where
  "starts_with_word post = (case post of [] \<Rightarrow> False | c # _ \<Rightarrow> is_word c)"

definition yes_tokens :: "string set" where
  "yes_tokens = {''yes'', ''y'', ''true''}"

definition has_affirmative_token :: "string \<Rightarrow> bool" where
  "has_affirmative_token t =
     (\<exists>pre w post. t = pre @ w @ post \<and> map lower_char w \<in> yes_tokens \<and>
        \<not> ends_in_word pre \<and> \<not> starts_with_word post)"

subsection \<open>Sample inputs\<close>

definition PREEMPT_HTML :: string where
  \<comment> \<open>a page whose first living-area label stands outside the tables, followed by a note,
      while a table row carries the building area\<close>
  "PREEMPT_HTML = ''<p><b>Living Area</b><span>see below</span></p><table><tr><th>Building Area</th><td>1,500</td></tr></table>''"

definition EMPTY_HX_HTML :: string where
  \<comment> \<open>a page whose exemption row has the label and an empty value cell\<close>
  "EMPTY_HX_HTML = ''<table><tr><th>Homeowner's Exemption</th><td></td></tr></table>''"

definition candidate :: "int \<Rightarrow> string \<Rightarrow> jobject" where
  \<comment> \<open>a geocode candidate with a score and an address\<close>
  "candidate sc addr = [(''address'', Scalar (PStr addr)), (''score'', Scalar (PInt sc))]"

definition geocoder_only :: "jobject list \<Rightarrow> session" where
  \<comment> \<open>a session whose geocoder returns the given candidates, whose feature service has
      no feature and whose record page cannot be fetched\<close>
  "geocoder_only cands =
     \<lparr>parcel_service = (\<lambda>log c. Ok (Some [])),
      geocode_service = (\<lambda>log c. Ok (Some cands)),
      assessor_site = (\<lambda>log c. Failed)\<rparr>"

definition null_result :: RawSearchResult where
  \<comment> \<open>\<open>RawSearchResult(apn=None, situs=None, parcel_feature=None, assessor_html=None)\<close>\<close>
  "null_result = \<lparr>raw_apn = PNone, situs = None, parcel_feature = None, assessor_html = None\<rparr>"



definition point_without_apn :: session where
  \<comment> \<open>a geocoder with one candidate that carries no parcel id, and a feature service whose
      spatial query returns a feature that has attributes but no \<open>APN\<close> among them\<close>
  "point_without_apn =
     \<lparr>parcel_service =
        (\<lambda>log c. case c of
           ParcelByPoint x y w \<Rightarrow> Ok (Some [[(''attributes'', Object [(''OBJECTID'', PInt 1)])]])
         | _ \<Rightarrow> Ok (Some [])),
      geocode_service =
        (\<lambda>log c. Ok (Some [[(''address'', Scalar (PStr ''70 W HEDDING ST'')),
                              (''location'', Object [(''x'', PInt 6158000), (''y'', PInt 1946000)]),
                              (''score'', Scalar (PInt 100)),
                              (''attributes'', Object [])]])),
      assessor_site = (\<lambda>log c. Failed)\<rparr>"

definition situs_page :: "string \<Rightarrow> session" where
  \<comment> \<open>a feature service that knows the parcel and its situs, and a record page with the
      given markup\<close>
  "situs_page html =
     \<lparr>parcel_service =
        (\<lambda>log c. case c of
           ParcelByApn a \<Rightarrow>
             Ok (Some [[(''attributes'',
                         Object [(''APN'', PStr ''235-12-003''),
                                 (''SITUS_HOUSE_NUMBER'', PInt 123),
                                 (''SITUS_STREET_NAME'', PStr ''SAMPLE''),
                                 (''SITUS_STREET_TYPE'', PStr ''ST''),
                                 (''SITUS_CITY_NAME'', PStr ''SAN JOSE''),
                                 (''SITUS_ZIP_CODE'', PStr ''95123'')])]])
         | _ \<Rightarrow> Ok (Some [])),
      geocode_service = (\<lambda>log c. Ok None),
      assessor_site = (\<lambda>log c. Ok html)\<rparr>"

definition COMMA_SITUS_HTML :: string where
  \<comment> \<open>a page whose situs line has no street before the comma\<close>
  "COMMA_SITUS_HTML = ''<table><tr><th>Situs Address</th><td>, San Jose, CA 95123</td></tr></table>''"

definition PAGE_SITUS_HTML :: string where
  "PAGE_SITUS_HTML = ''<table><tr><th>Situs Address</th><td>456 Page Ave, San Jose, CA 95123</td></tr></table>''"

subsection \<open>Abbreviations used in the statements\<close>


definition skeleton_situs :: "RawSearchResult \<Rightarrow> address" where
  \<comment> \<open>the situs address of the geospatial skeleton:
      \<open>raw.situs or {"street": None, "city": None, "state": None, "zip": None}\<close>, read
      at the four keys of the output\<close>
  "skeleton_situs raw = (case situs raw of None \<Rightarrow> no_address | Some s \<Rightarrow> address.truncate s)"

section \<open>Theorems\<close>

subsection \<open>Substring tests under upper-casing\<close>

lemma sublist_map_iff:
  "sublist xs (map f s) \<longleftrightarrow> (\<exists>pre mid post. s = pre @ mid @ post \<and> map f mid = xs)"
proof
  assume "sublist xs (map f s)"
  then obtain ps ss where "map f s = ps @ xs @ ss" by (auto simp: sublist_def)
  then obtain us vs where 1: "s = us @ vs" "ps = map f us" "xs @ ss = map f vs"
    by (auto simp: map_eq_append_conv)
  from 1(3) obtain ms ws where "vs = ms @ ws" "xs = map f ms"
    by (auto simp: append_eq_map_conv)
  with 1 show "\<exists>pre mid post. s = pre @ mid @ post \<and> map f mid = xs" by blast
next
  assume "\<exists>pre mid post. s = pre @ mid @ post \<and> map f mid = xs"
  then obtain pre mid post where "s = pre @ mid @ post" "map f mid = xs" by blast
  then have "map f s = map f pre @ xs @ map f post" by simp
  then show "sublist xs (map f s)" unfolding sublist_def by blast
qed

lemma suffix_map_iff:
  "suffix xs (map f s) \<longleftrightarrow> (\<exists>pre mid. s = pre @ mid \<and> map f mid = xs)"
proof
  assume "suffix xs (map f s)"
  then obtain ps where "map f s = ps @ xs" by (auto simp: suffix_def)
  then show "\<exists>pre mid. s = pre @ mid \<and> map f mid = xs"
    by (auto simp: map_eq_append_conv)
next
  assume "\<exists>pre mid. s = pre @ mid \<and> map f mid = xs"
  then obtain pre mid where "s = pre @ mid" "map f mid = xs" by blast
  then have "map f s = map f pre @ xs" by simp
  then show "suffix xs (map f s)" unfolding suffix_def by blast
qed

lemma sublist_upper_iff:
  "sublist (map upper_char kw) (upper s) \<longleftrightarrow> ci_contains kw s"
  by (simp add: upper_def ci_contains_def sublist_map_iff)

lemma suffix_upper_iff:
  "suffix (map upper_char kw) (upper s) \<longleftrightarrow> ci_endswith kw s"
  by (simp add: upper_def ci_endswith_def suffix_map_iff)

lemma kw_upper:
  "''TRUST'' = map upper_char ''TRUST''" "'' TR'' = map upper_char '' TR''"
  "''LLC'' = map upper_char ''LLC''"
  "'' INC'' = map upper_char '' INC''" "'' CORP'' = map upper_char '' CORP''"
  "'' CORPORATION'' = map upper_char '' CORPORATION''" "'' CO.'' = map upper_char '' CO.''"
  "'' COMPANY'' = map upper_char '' COMPANY''"
  "'' LP'' = map upper_char '' LP''" "'' L.P.'' = map upper_char '' L.P.''"
  "'' LTD'' = map upper_char '' LTD''" "'' LIMITED'' = map upper_char '' LIMITED''"
  "'' PARTNERSHIP'' = map upper_char '' PARTNERSHIP''"
  by code_simp+

lemma sub_kw:
  "sublist ''TRUST'' (upper s) = ci_contains ''TRUST'' s"
  "suffix '' TR'' (upper s) = ci_endswith '' TR'' s"
  "sublist ''LLC'' (upper s) = ci_contains ''LLC'' s"
  "sublist '' INC'' (upper s) = ci_contains '' INC'' s"
  "sublist '' CORP'' (upper s) = ci_contains '' CORP'' s"
  "sublist '' CORPORATION'' (upper s) = ci_contains '' CORPORATION'' s"
  "sublist '' CO.'' (upper s) = ci_contains '' CO.'' s"
  "sublist '' COMPANY'' (upper s) = ci_contains '' COMPANY'' s"
  "sublist '' LP'' (upper s) = ci_contains '' LP'' s"
  "sublist '' L.P.'' (upper s) = ci_contains '' L.P.'' s"
  "sublist '' LTD'' (upper s) = ci_contains '' LTD'' s"
  "sublist '' LIMITED'' (upper s) = ci_contains '' LIMITED'' s"
  "sublist '' PARTNERSHIP'' (upper s) = ci_contains '' PARTNERSHIP'' s"
  using sublist_upper_iff[of "''TRUST''" s] suffix_upper_iff[of "'' TR''" s]
    sublist_upper_iff[of "''LLC''" s]
    sublist_upper_iff[of "'' INC''" s]
    sublist_upper_iff[of "'' CORP''" s]
    sublist_upper_iff[of "'' CORPORATION''" s]
    sublist_upper_iff[of "'' CO.''" s]
    sublist_upper_iff[of "'' COMPANY''" s]
    sublist_upper_iff[of "'' LP''" s]
    sublist_upper_iff[of "'' L.P.''" s]
    sublist_upper_iff[of "'' LTD''" s]
    sublist_upper_iff[of "'' LIMITED''" s]
    sublist_upper_iff[of "'' PARTNERSHIP''" s]
  unfolding kw_upper[symmetric] by blast+

subsection \<open>C8: owner classification\<close>

text \<open>
  C8 as the specification states it: corporation when the name contains any of INC, CORP,
  CORPORATION, CO., COMPANY, and partnership when it contains any of LP, L.P., LTD,
  LIMITED, PARTNERSHIP. The code asks for a blank before each of these keywords, so a name
  such as VINCENT PRICE, which contains INC inside a word, is an individual for the code and
  a corporation for the rule as stated.
\<close>

theorem owner_type_keyword_counterexample:
  "classify_owner_type (Some ''VINCENT PRICE'') = Some ''individual'' \<and>
   owner_type_as_claimed (Some ''VINCENT PRICE'') = Some ''corporation''"
proof
  show "classify_owner_type (Some ''VINCENT PRICE'') = Some ''individual''"
    by code_simp
  have no_trust: "\<not> sublist (map upper_char ''TRUST'') (upper ''VINCENT PRICE'')"
    by code_simp
  have no_tr: "\<not> suffix (map upper_char '' TR'') (upper ''VINCENT PRICE'')"
    by code_simp
  have no_llc: "\<not> sublist (map upper_char ''LLC'') (upper ''VINCENT PRICE'')"
    by code_simp
  have inc: "sublist (map upper_char ''INC'') (upper ''VINCENT PRICE'')"
    by code_simp
  show "owner_type_as_claimed (Some ''VINCENT PRICE'') = Some ''corporation''"
    using no_trust no_tr no_llc inc
    unfolding sublist_upper_iff suffix_upper_iff owner_type_as_claimed_def
      owner_type_by_priority_def
    by auto
qed

text \<open>
  C8 as amended: owner classification is a total function of the owner name, with
  case-insensitive checks in priority order: trust when the name contains TRUST or ends with
  " TR"; else llc when it contains LLC; else corporation when it contains any of " INC",
  " CORP", " CORPORATION", " CO.", " COMPANY" (each after a blank); else partnership when it
  contains any of " LP", " L.P.", " LTD", " LIMITED", " PARTNERSHIP" (each after a blank);
  else individual when a name exists; null when the name is null or empty.
\<close>

theorem classify_owner_type_spaced:
  "classify_owner_type name = owner_type_spaced name"
proof (cases name)
  case None
  then show ?thesis
    by (simp add: classify_owner_type_def owner_type_spaced_def owner_type_by_priority_def)
next
  case (Some nm)
  have corp: "list_ex (\<lambda>k. sublist k (upper nm))
       ['' INC'', '' CORP'', '' CORPORATION'', '' CO.'', '' COMPANY'']
     \<longleftrightarrow> (\<exists>k. k \<in> set ['' INC'', '' CORP'', '' CORPORATION'', '' CO.'', '' COMPANY'']
            \<and> ci_contains k nm)"
    unfolding list_ex_iff set_simps by (simp only: sub_kw bex_simps insert_iff empty_iff) blast
  have part: "list_ex (\<lambda>k. sublist k (upper nm))
       ['' LP'', '' L.P.'', '' LTD'', '' LIMITED'', '' PARTNERSHIP'']
     \<longleftrightarrow> (\<exists>k. k \<in> set ['' LP'', '' L.P.'', '' LTD'', '' LIMITED'', '' PARTNERSHIP'']
            \<and> ci_contains k nm)"
    unfolding list_ex_iff set_simps by (simp only: sub_kw bex_simps insert_iff empty_iff) blast
  show ?thesis
    unfolding Some classify_owner_type_def owner_type_spaced_def owner_type_by_priority_def
      Let_def option.case corp part sub_kw ..
qed

subsection \<open>The sample page, step by step\<close>

lemma find_first_kv_hit:
  "kv_hit m (hd (aliases k)) = Some v \<Longrightarrow> aliases k \<noteq> [] \<Longrightarrow>
   find_first m soup (aliases k) = Some v"
  by (cases "aliases k") simp_all

lemma demo_soup: "BeautifulSoup DEMO_HTML = DEMO_SOUP"
  by code_simp

lemma demo_kv: "harvest DEMO_SOUP = DEMO_KV"
  by code_simp

lemma demo_apn: "find_first DEMO_KV soup (aliases ''apn'') = Some ''235-12-003''"
  by (rule find_first_kv_hit) code_simp+

lemma demo_situs_address: "find_first DEMO_KV soup (aliases ''situs_address'') = Some ''123 Sample St San Jose, CA 95123''"
  by (rule find_first_kv_hit) code_simp+

lemma demo_mailing_address: "find_first DEMO_KV soup (aliases ''mailing_address'') = Some ''JANE DOE TRUST PO BOX 1234 San Jose, CA 95123''"
  by (rule find_first_kv_hit) code_simp+

lemma demo_homeowner_exemption: "find_first DEMO_KV soup (aliases ''homeowner_exemption'') = Some ''Yes''"
  by (rule find_first_kv_hit) code_simp+

lemma demo_use_code: "find_first DEMO_KV soup (aliases ''use_code'') = Some ''SFR''"
  by (rule find_first_kv_hit) code_simp+

lemma demo_year_built: "find_first DEMO_KV soup (aliases ''year_built'') = Some ''1978''"
  by (rule find_first_kv_hit) code_simp+

lemma demo_living_sqft: "find_first DEMO_KV soup (aliases ''living_sqft'') = Some ''1,234''"
  by (rule find_first_kv_hit) code_simp+

lemma demo_lot_sqft: "find_first DEMO_KV soup (aliases ''lot_sqft'') = Some ''6,098''"
  by (rule find_first_kv_hit) code_simp+

lemma demo_doc_number: "find_first DEMO_KV soup (aliases ''doc_number'') = Some ''12345678''"
  by (rule find_first_kv_hit) code_simp+

lemma demo_recording_date: "find_first DEMO_KV soup (aliases ''recording_date'') = Some ''06/15/2021''"
  by (rule find_first_kv_hit) code_simp+

lemma demo_sales_price: "find_first DEMO_KV soup (aliases ''sales_price'') = Some ''$1,250,000''"
  by (rule find_first_kv_hit) code_simp+

lemma demo_assessed_land: "find_first DEMO_KV soup (aliases ''assessed_land'') = Some ''$900,000''"
  by (rule find_first_kv_hit) code_simp+

lemma demo_assessed_impr: "find_first DEMO_KV soup (aliases ''assessed_impr'') = Some ''$450,000''"
  by (rule find_first_kv_hit) code_simp+

lemma demo_assessed_total: "find_first DEMO_KV soup (aliases ''assessed_total'') = Some ''$1,350,000''"
  by (rule find_first_kv_hit) code_simp+

lemma demo_assessed_year: "find_first DEMO_KV soup (aliases ''assessed_year'') = Some ''2024''"
  by (rule find_first_kv_hit) code_simp+

lemma demo_owner_name: "find_first DEMO_KV DEMO_SOUP (aliases ''owner_name'') = None"
  by code_simp
lemma demo_mailing:
  "mailing_of (Some ''JANE DOE TRUST PO BOX 1234 San Jose, CA 95123'') =
     \<lparr>street = None, city = Some ''JANE DOE TRUST PO BOX 1234 San Jose'',
      state = Some ''CA'', zipcode = Some ''95123''\<rparr>"
  by code_simp

lemma demo_situs:
  "situs_of (Some ''123 Sample St San Jose, CA 95123'') =
     \<lparr>street = Some ''123 Sample St San Jose'', city = None,
      state = Some ''CA'', zipcode = None\<rparr>"
  by code_simp

lemma demo_values:
  "safe_int (Some ''1978'') = Some 1978"
  "safe_int (Some ''2024'') = Some 2024"
  "normalize_money (Some ''1,234'') = Inr (Some 1234)"
  "normalize_money (Some ''6,098'') = Inr (Some 6098)"
  "normalize_money (Some ''$1,250,000'') = Inr (Some 1250000)"
  "normalize_money (Some ''$900,000'') = Inr (Some 900000)"
  "normalize_money (Some ''$450,000'') = Inr (Some 450000)"
  "normalize_money (Some ''$1,350,000'') = Inr (Some 1350000)"
  "re_found True affirmative_rx ''Yes''"
  "classify_owner_type None = None"
  by code_simp+

lemma demo_record:
  "parse_property_page DEMO_HTML =
     Inr \<lparr>apn = PStr ''235-12-003'',
          situs_address =
            \<lparr>street = Some ''123 Sample St San Jose'', city = None,
             state = Some ''CA'', zipcode = None\<rparr>,
          owner_names = [],
          owner_mailing_address =
            \<lparr>street = None, city = Some ''JANE DOE TRUST PO BOX 1234 San Jose'',
             state = Some ''CA'', zipcode = Some ''95123''\<rparr>,
          owner_type = None,
          last_transfer =
            \<lparr>recording_date = Some ''06/15/2021'', doc_number = Some ''12345678'',
             price = Some 1250000\<rparr>,
          assessed_values =
            \<lparr>land = Some 900000, improvements = Some 450000, total = Some 1350000,
             year = Some 2024\<rparr>,
          homeowner_exemption = Some True,
          property_details =
            \<lparr>use_code = Some ''SFR'', year_built = Some 1978, living_sqft = Some 1234,
             lot_sqft = Some 6098\<rparr>,
          recorder_doc_url = Some RECORDER_SEARCH_LANDING\<rparr>"
  unfolding parse_property_page_def demo_soup parse_soup_def demo_kv Let_def
  by (simp add: demo_apn demo_situs_address demo_mailing_address demo_homeowner_exemption
      demo_use_code demo_year_built demo_living_sqft demo_lot_sqft demo_doc_number
      demo_recording_date demo_sales_price demo_assessed_land demo_assessed_impr
      demo_assessed_total demo_assessed_year demo_owner_name demo_mailing demo_situs
      demo_values nonempty_def of_opt_def)

subsection \<open>C1: extraction from the sample page\<close>

text \<open>
  C1 as the specification states it: the sample page yields owner_names
  ["JANE DOE TRUST"], owner_type "trust" and the situs address 123 Sample St / San Jose /
  CA / 95123. The code finds no owner: the page has no owner-name label, and the first line
  of the mailing block is never read as an owner. The situs cell's two lines are joined by
  a blank (\<open>get_text(" ", strip=True)\<close>), so the split on line breaks sees one line.
\<close>

theorem demo_extraction_counterexample:
  "\<not> isl (parse_property_page DEMO_HTML) \<and>
   owner_names (projr (parse_property_page DEMO_HTML)) = [] \<and>
   owner_type (projr (parse_property_page DEMO_HTML)) = None \<and>
   situs_address (projr (parse_property_page DEMO_HTML)) =
     \<lparr>street = Some ''123 Sample St San Jose'', city = None, state = Some ''CA'',
      zipcode = None\<rparr>"
  by (simp add: demo_record)

text \<open>
  C1 as amended: applying \<open>parse_property_page\<close> to \<open>DEMO_HTML\<close> yields a record with apn
  "235-12-003", no owner names, owner_type null, homeowner_exemption true, year_built 1978,
  living_sqft 1234, lot_sqft 6098, assessed_values land 900000, improvements 450000, total
  1350000, year 2024, last_transfer recording_date "06/15/2021", doc_number "12345678",
  price 1250000, and a non-null recorder_doc_url. (Nothing is said about the situs
  address.)
\<close>

theorem demo_extraction:
  "\<exists>r. parse_property_page DEMO_HTML = Inr r \<and>
       apn r = PStr ''235-12-003'' \<and>
       owner_names r = [] \<and>
       owner_type r = None \<and>
       homeowner_exemption r = Some True \<and>
       year_built (property_details r) = Some 1978 \<and>
       living_sqft (property_details r) = Some 1234 \<and>
       lot_sqft (property_details r) = Some 6098 \<and>
       assessed_values r =
         \<lparr>land = Some 900000, improvements = Some 450000, total = Some 1350000,
          year = Some 2024\<rparr> \<and>
       last_transfer r =
         \<lparr>recording_date = Some ''06/15/2021'', doc_number = Some ''12345678'',
          price = Some 1250000\<rparr> \<and>
       recorder_doc_url r \<noteq> None"
  by (simp add: demo_record)

subsection \<open>C4: totality of the extraction\<close>

text \<open>The empty document gives the record with every field null and no owner names.\<close>

lemma empty_document_record:
  "parse_property_page [] =
     Inr \<lparr>apn = PNone, situs_address = no_address, owner_names = [],
          owner_mailing_address = no_address, owner_type = None,
          last_transfer = \<lparr>recording_date = None, doc_number = None, price = None\<rparr>,
          assessed_values = \<lparr>land = None, improvements = None, total = None, year = None\<rparr>,
          homeowner_exemption = None,
          property_details =
            \<lparr>use_code = None, year_built = None, living_sqft = None, lot_sqft = None\<rparr>,
          recorder_doc_url = None\<rparr>"
  by code_simp

text \<open>
  C4 says that \<open>parse_property_page\<close> never raises, whatever text a cell holds. In a money
  field whose text has a comma before any digit, the pattern \<open>[\d,]+\<close> matches the comma
  alone, the commas are removed, and \<open>int("")\<close> raises ValueError: the page below, whose
  sales price reads "N/A, see deed", ends the extraction with that exception.
\<close>

theorem comma_only_amount_raises:
  "parse_property_page
     ''<table><tr><th>Sales Price</th><td>N/A, see deed</td></tr></table>'' = Inl ValueError"
  by code_simp

subsection \<open>C7: the order of label resolution\<close>

text \<open>
  C7 as the specification states it: the document-wide fallback is consulted only after all
  earlier patterns found nothing in the mapping, so that a later pattern's mapping hit is
  never pre-empted by an earlier pattern's fallback hit. On \<open>PREEMPT_HTML\<close> the second
  living-area pattern has the mapping hit "1,500", and the result is the fallback hit
  "see below" of the first pattern.
\<close>

theorem fallback_preempts_counterexample:
  "kv_hit (harvest (BeautifulSoup PREEMPT_HTML)) (aliases ''living_sqft'' ! 1) = Some ''1,500'' \<and>
   doc_hit (BeautifulSoup PREEMPT_HTML) (aliases ''living_sqft'' ! 0) = Some ''see below'' \<and>
   find_first (harvest (BeautifulSoup PREEMPT_HTML)) (BeautifulSoup PREEMPT_HTML)
     (aliases ''living_sqft'') = Some ''see below''"
  by code_simp

text \<open>
  C7 as amended: label resolution tries the declared patterns of a field in order; for each
  pattern it searches the harvested mapping first and, when the mapping has no hit for that
  pattern, the document-wide sibling-text fallback for that same pattern; the first pattern
  for which either of the two yields a text wins, with the mapping hit preferred for that
  pattern. Later patterns are consulted only if all earlier patterns found nothing in the
  mapping and nothing by the fallback.
\<close>

theorem find_first_order:
  "find_first m soup pats =
     (case find (\<lambda>p. kv_hit m p \<noteq> None \<or> doc_hit soup p \<noteq> None) pats of
        None \<Rightarrow> None
      | Some p \<Rightarrow> (case kv_hit m p of Some v \<Rightarrow> Some v | None \<Rightarrow> doc_hit soup p))"
  by (induction pats) (auto split: option.splits)

theorem find_first_order_witness:
  "find (\<lambda>p. kv_hit (harvest (BeautifulSoup PREEMPT_HTML)) p \<noteq> None \<or>
              doc_hit (BeautifulSoup PREEMPT_HTML) p \<noteq> None) (aliases ''living_sqft'')
     = Some (aliases ''living_sqft'' ! 0) \<and>
   kv_hit (harvest (BeautifulSoup PREEMPT_HTML)) (aliases ''living_sqft'' ! 0) = None \<and>
   find_first (harvest (BeautifulSoup PREEMPT_HTML)) (BeautifulSoup PREEMPT_HTML)
     (aliases ''living_sqft'') = doc_hit (BeautifulSoup PREEMPT_HTML) (aliases ''living_sqft'' ! 0)"
proof -
  have 1: "find (\<lambda>p. kv_hit (harvest (BeautifulSoup PREEMPT_HTML)) p \<noteq> None \<or>
              doc_hit (BeautifulSoup PREEMPT_HTML) p \<noteq> None) (aliases ''living_sqft'')
     = Some (aliases ''living_sqft'' ! 0)"
    by code_simp
  have 2: "kv_hit (harvest (BeautifulSoup PREEMPT_HTML)) (aliases ''living_sqft'' ! 0) = None"
    by code_simp
  show ?thesis
    using find_first_order[of "harvest (BeautifulSoup PREEMPT_HTML)" "BeautifulSoup PREEMPT_HTML"
        "aliases ''living_sqft''"] 1 2
    by simp
qed

subsection \<open>Facts about the matcher\<close>

lemma lit_match_iff:
  "lit_match ic w s = Some (m, r) \<longleftrightarrow> s = m @ r \<and> list_all2 (same_char ic) w m"
proof (induction ic w s arbitrary: m r rule: lit_match.induct)
  case (1 ic s)
  then show ?case by auto
next
  case (2 ic a w)
  then show ?case by auto
next
  case (3 ic a w c s)
  show ?case
  proof (cases "same_char ic a c")
    case True
    show ?thesis
    proof
      assume "lit_match ic (a # w) (c # s) = Some (m, r)"
      with True obtain m' where m': "lit_match ic w s = Some (m', r)" "m = c # m'"
        by (auto split: option.splits)
      with 3[OF True, of m' r] True show "c # s = m @ r \<and> list_all2 (same_char ic) (a # w) m"
        by simp
    next
      assume a: "c # s = m @ r \<and> list_all2 (same_char ic) (a # w) m"
      then obtain m' where m': "m = c # m'" "s = m' @ r" "list_all2 (same_char ic) w m'"
        by (cases m) auto
      with 3[OF True, of m' r] have "lit_match ic w s = Some (m', r)" by simp
      with True m' show "lit_match ic (a # w) (c # s) = Some (m, r)" by simp
    qed
  next
    case False
    have "\<not> (c # s = m @ r \<and> list_all2 (same_char ic) (a # w) m)"
    proof
      assume a: "c # s = m @ r \<and> list_all2 (same_char ic) (a # w) m"
      then obtain m' where "m = c # m'" by (cases m) auto
      with a False show False by simp
    qed
    with False show ?thesis by simp
  qed
qed

lemma list_all2_same_char_ci:
  "list_all2 (same_char True) w m \<longleftrightarrow> map lower_char m = map lower_char w"
  by (induction w arbitrary: m) (auto simp: same_char_def list_all2_Cons1)

lemma lit_match_ci_iff:
  "lit_match True w s = Some (m, r) \<longleftrightarrow> s = m @ r \<and> map lower_char m = map lower_char w"
  by (simp add: lit_match_iff list_all2_same_char_ci)

lemma search_from_iff:
  "search_from ic r p s \<noteq> None \<longleftrightarrow>
     (\<exists>pre post. s = pre @ post \<and> rx_match ic r (prev_after p pre) post \<noteq> [])"
proof (induction s arbitrary: p)
  case Nil
  then show ?case by (auto simp: prev_after_def split: list.splits)
next
  case (Cons c cs)
  show ?case
  proof (cases "rx_match ic r p (c # cs) = []")
    case False
    then have "search_from ic r p (c # cs) \<noteq> None" by (auto split: list.splits)
    moreover from False have "\<exists>pre post. c # cs = pre @ post \<and> rx_match ic r (prev_after p pre) post \<noteq> []"
      by (intro exI[of _ "[]"] exI[of _ "c # cs"]) (simp add: prev_after_def)
    ultimately show ?thesis by blast
  next
    case True
    then have eq: "search_from ic r p (c # cs) = search_from ic r (Some c) cs" by simp
    have "(\<exists>pre post. c # cs = pre @ post \<and> rx_match ic r (prev_after p pre) post \<noteq> []) \<longleftrightarrow>
          (\<exists>pre post. cs = pre @ post \<and> rx_match ic r (prev_after (Some c) pre) post \<noteq> [])"
    proof
      assume "\<exists>pre post. c # cs = pre @ post \<and> rx_match ic r (prev_after p pre) post \<noteq> []"
      then obtain pre post where pp: "c # cs = pre @ post" "rx_match ic r (prev_after p pre) post \<noteq> []"
        by blast
      with True have "pre \<noteq> []" by (auto simp: prev_after_def)
      with pp(1) obtain pre' where pre': "pre = c # pre'" "cs = pre' @ post" by (cases pre) auto
      have "prev_after p pre = prev_after (Some c) pre'"
        using pre' by (simp add: prev_after_def)
      with pp pre' show "\<exists>pre post. cs = pre @ post \<and> rx_match ic r (prev_after (Some c) pre) post \<noteq> []"
        by auto
    next
      assume "\<exists>pre post. cs = pre @ post \<and> rx_match ic r (prev_after (Some c) pre) post \<noteq> []"
      then obtain pre post where pp: "cs = pre @ post" "rx_match ic r (prev_after (Some c) pre) post \<noteq> []"
        by blast
      have "prev_after p (c # pre) = prev_after (Some c) pre" by (simp add: prev_after_def)
      with pp have "c # cs = (c # pre) @ post \<and> rx_match ic r (prev_after p (c # pre)) post \<noteq> []"
        by simp
      then show "\<exists>pre post. c # cs = pre @ post \<and> rx_match ic r (prev_after p pre) post \<noteq> []"
        by blast
    qed
    with eq Cons.IH[of "Some c"] show ?thesis by simp
  qed
qed

lemma lower_letter_is_word: "is_lower (lower_char c) \<Longrightarrow> is_word c"
  by (auto simp: lower_char_def is_word_def split: if_splits)

lemma token_word_ends:
  assumes "map lower_char w \<in> yes_tokens"
  shows "w \<noteq> [] \<and> is_word (hd w) \<and> is_word (last w)"
proof -
  have "w \<noteq> []" using assms by (auto simp: yes_tokens_def)
  moreover have "is_lower (lower_char (hd w))" "is_lower (lower_char (last w))"
    using assms by (auto simp: yes_tokens_def is_lower_def map_eq_Cons_conv)
  ultimately show ?thesis by (simp add: lower_letter_is_word)
qed

lemma seq_nonempty_iff:
  "rx_match ic (Seq r1 r2) p s \<noteq> [] \<longleftrightarrow>
     (\<exists>m1 s1 g1. (m1, s1, g1) \<in> set (rx_match ic r1 p s) \<and>
        rx_match ic r2 (prev_after p m1) s1 \<noteq> [])"
  by (auto simp: concat_eq_Nil_conv) force+

lemma in_lit_ci:
  "(m, r, g) \<in> set (rx_match True (Lit w) p s) \<longleftrightarrow>
     g = [] \<and> s = m @ r \<and> map lower_char m = map lower_char w"
  using lit_match_ci_iff[of w s m r]
  by (cases "lit_match True w s") auto

lemma in_alt:
  "x \<in> set (rx_match ic (Alt r1 r2) p s) \<longleftrightarrow>
     x \<in> set (rx_match ic r1 p s) \<or> x \<in> set (rx_match ic r2 p s)"
  by simp

lemma in_grp:
  "(m, r, g) \<in> set (rx_match ic (Grp n r0) p s) \<longleftrightarrow>
     (\<exists>g0. g = (n, m) # g0 \<and> (m, r, g0) \<in> set (rx_match ic r0 p s))"
  by force

lemma bnd_nonempty_iff:
  "rx_match ic (Seq Bnd (Lit [])) p s \<noteq> [] \<longleftrightarrow> at_boundary p s"
  by simp

lemma in_bnd:
  "(m, r, g) \<in> set (rx_match ic Bnd p s) \<longleftrightarrow> at_boundary p s \<and> m = [] \<and> r = s \<and> g = []"
  by auto

lemma bounded_alt3_match_iff:
  "rx_match True (Seq Bnd (Seq (Grp n (Alt (Lit a) (Alt (Lit b) (Lit c)))) (Seq Bnd (Lit []))))
      p s \<noteq> [] \<longleftrightarrow>
     (\<exists>w post. s = w @ post \<and>
        map lower_char w \<in> {map lower_char a, map lower_char b, map lower_char c} \<and>
        at_boundary p s \<and> at_boundary (prev_after p w) post)"
proof -
  have pa: "prev_after p [] = p" by (simp add: prev_after_def)
  show ?thesis
    unfolding seq_nonempty_iff in_bnd in_grp in_alt in_lit_ci bnd_nonempty_iff
    by (simp add: pa) blast
qed

lemma affirmative_match_iff:
  "rx_match True affirmative_rx p s \<noteq> [] \<longleftrightarrow>
     (\<exists>w post. s = w @ post \<and> map lower_char w \<in> yes_tokens \<and>
        at_boundary p s \<and> at_boundary (prev_after p w) post)"
proof -
  have low: "{map lower_char ''yes'', map lower_char ''y'', map lower_char ''true''} = yes_tokens"
    unfolding yes_tokens_def by code_simp
  have rx: "affirmative_rx =
      Seq Bnd (Seq (Grp 1 (Alt (Lit ''yes'') (Alt (Lit ''y'') (Lit ''true'')))) (Seq Bnd (Lit [])))"
    by (simp add: affirmative_rx_def cat_def)
  show ?thesis
    unfolding rx bounded_alt3_match_iff low ..
qed

lemma at_boundary_before_word:
  "s \<noteq> [] \<Longrightarrow> is_word (hd s) \<Longrightarrow>
   at_boundary (prev_after None pre) s \<longleftrightarrow> \<not> ends_in_word pre"
  by (cases s) (auto simp: at_boundary_def prev_after_def ends_in_word_def)

lemma at_boundary_after_word:
  "w \<noteq> [] \<Longrightarrow> is_word (last w) \<Longrightarrow>
   at_boundary (prev_after p w) post \<longleftrightarrow> \<not> starts_with_word post"
  by (auto simp: at_boundary_def prev_after_def starts_with_word_def split: list.splits)

lemma affirmative_found_iff:
  "re_found True affirmative_rx t \<longleftrightarrow> has_affirmative_token t"
proof
  assume "re_found True affirmative_rx t"
  then have "search_from True affirmative_rx None t \<noteq> None"
    by (simp add: re_found_def re_search_def)
  then obtain pre s where ps: "t = pre @ s"
      "rx_match True affirmative_rx (prev_after None pre) s \<noteq> []"
    using search_from_iff[of True affirmative_rx None t] by fast
  from ps(2) obtain w post where wp: "s = w @ post"
      "map lower_char w \<in> yes_tokens"
      "at_boundary (prev_after None pre) s"
      "at_boundary (prev_after (prev_after None pre) w) post"
    using affirmative_match_iff[of "prev_after None pre" s] by fast
  from token_word_ends[OF wp(2)] have w: "w \<noteq> []" "is_word (hd w)" "is_word (last w)"
    by simp_all
  then have "s \<noteq> []" "is_word (hd s)" using wp(1) by simp_all
  from at_boundary_before_word[OF this, of pre] wp(3) have 1: "\<not> ends_in_word pre" by simp
  from at_boundary_after_word[OF w(1,3)] wp(4) have 2: "\<not> starts_with_word post" by simp
  have "t = pre @ w @ post \<and> map lower_char w \<in> yes_tokens \<and>
        \<not> ends_in_word pre \<and> \<not> starts_with_word post"
    using ps(1) wp(1,2) 1 2 by simp
  then show "has_affirmative_token t"
    unfolding has_affirmative_token_def by (intro exI)
next
  assume "has_affirmative_token t"
  then obtain pre w post where t: "t = pre @ w @ post"
      "map lower_char w \<in> yes_tokens"
      "\<not> ends_in_word pre" "\<not> starts_with_word post"
    unfolding has_affirmative_token_def by fast
  from token_word_ends[OF t(2)] have w: "w \<noteq> []" "is_word (hd w)" "is_word (last w)"
    by simp_all
  then have "w @ post \<noteq> []" "is_word (hd (w @ post))" by simp_all
  from at_boundary_before_word[OF this, of pre] t(3)
  have 1: "at_boundary (prev_after None pre) (w @ post)" by simp
  from at_boundary_after_word[OF w(1,3)] t(4)
  have 2: "at_boundary (prev_after (prev_after None pre) w) post" by simp
  have "w @ post = w @ post \<and> map lower_char w \<in> yes_tokens \<and>
        at_boundary (prev_after None pre) (w @ post) \<and>
        at_boundary (prev_after (prev_after None pre) w) post"
    using t(2) 1 2 by simp
  then have "\<exists>w' post'. w @ post = w' @ post' \<and> map lower_char w' \<in> yes_tokens \<and>
        at_boundary (prev_after None pre) (w @ post) \<and>
        at_boundary (prev_after (prev_after None pre) w') post'"
    by (intro exI)
  then have "rx_match True affirmative_rx (prev_after None pre) (w @ post) \<noteq> []"
    using affirmative_match_iff[of "prev_after None pre" "w @ post"] by fast
  with t(1) have "\<exists>pre' post'. t = pre' @ post' \<and>
        rx_match True affirmative_rx (prev_after None pre') post' \<noteq> []"
    by (intro exI[of _ pre] exI[of _ "w @ post"]) simp
  then have "search_from True affirmative_rx None t \<noteq> None"
    using search_from_iff[of True affirmative_rx None t] by fast
  then show "re_found True affirmative_rx t"
    by (simp add: re_found_def re_search_def)
qed

subsection \<open>C9: the homeowner-exemption flag\<close>

lemma kv_hit_nonempty: "kv_hit m p = Some v \<Longrightarrow> v \<noteq> []"
  by (auto simp: kv_hit_def find_Some_iff)

lemma doc_hit_nonempty: "doc_hit soup p = Some v \<Longrightarrow> v \<noteq> []"
  by (auto simp: doc_hit_def Let_def split: option.splits if_splits prod.splits)

lemma find_first_nonempty: "find_first m soup ps = Some v \<Longrightarrow> v \<noteq> []"
  by (induction ps) (auto split: option.splits dest: kv_hit_nonempty doc_hit_nonempty)

lemma parse_soup_hx:
  assumes "parse_soup soup = Inr r"
  shows "homeowner_exemption r =
     (case find_first (harvest soup) soup (aliases ''homeowner_exemption'') of
        None \<Rightarrow> None
      | Some t \<Rightarrow> Some (re_found True affirmative_rx t))"
proof -
  let ?hx = "find_first (harvest soup) soup (aliases ''homeowner_exemption'')"
  have "homeowner_exemption r =
     (if nonempty ?hx then Some (re_found True affirmative_rx (the ?hx)) else None)"
    using assms by (auto simp: parse_soup_def Let_def split: sum.splits)
  then show ?thesis
    by (cases ?hx) (auto simp: nonempty_def dest: find_first_nonempty)
qed

lemma demo_parse_soup:
  "parse_soup DEMO_SOUP = parse_property_page DEMO_HTML"
  by (simp add: parse_property_page_def demo_soup)

text \<open>
  C9 as the specification states it: the field is null only when the label is not found at
  all. On \<open>EMPTY_HX_HTML\<close> the label is found (the first text node of the document matches
  the pattern, and the cell after it is there), its value cell has no text, and the field
  is null.
\<close>

theorem empty_value_counterexample:
  "find_string (re_found True (hd (aliases ''homeowner_exemption''))) []
     (children (BeautifulSoup EMPTY_HX_HTML)) =
       Some (''Homeowner's Exemption'', [Tag ''td'' []]) \<and>
   \<not> isl (parse_property_page EMPTY_HX_HTML) \<and>
   homeowner_exemption (projr (parse_property_page EMPTY_HX_HTML)) = None"
  by code_simp

text \<open>
  C9 as amended: the homeowner-exemption field is true exactly when a text is extracted for
  the label and that text has a yes/y/true token (a whole word, in any case); it is an
  explicit false exactly when a text is extracted that has no such token (for instance
  "No"); and it is null exactly when label resolution extracts no text, which is the case
  when the label is not found and also when it is found with no value text.
\<close>

theorem homeowner_exemption_flag:
  assumes "parse_soup soup = Inr r"
  shows "(homeowner_exemption r = Some True \<longleftrightarrow>
            (\<exists>t. find_first (harvest soup) soup (aliases ''homeowner_exemption'') = Some t \<and>
                 has_affirmative_token t)) \<and>
         (homeowner_exemption r = Some False \<longleftrightarrow>
            (\<exists>t. find_first (harvest soup) soup (aliases ''homeowner_exemption'') = Some t \<and>
                 \<not> has_affirmative_token t)) \<and>
         (homeowner_exemption r = None \<longleftrightarrow>
            find_first (harvest soup) soup (aliases ''homeowner_exemption'') = None)"
  using parse_soup_hx[OF assms]
  by (cases "find_first (harvest soup) soup (aliases ''homeowner_exemption'')")
     (simp_all add: affirmative_found_iff)

theorem homeowner_exemption_flag_witness:
  "homeowner_exemption (projr (parse_soup DEMO_SOUP)) = Some True \<and>
   (\<exists>t. find_first (harvest DEMO_SOUP) DEMO_SOUP (aliases ''homeowner_exemption'') = Some t \<and>
        has_affirmative_token t)"
proof -
  obtain r where r: "parse_soup DEMO_SOUP = Inr r" "homeowner_exemption r = Some True"
    by (simp add: demo_parse_soup demo_record)
  from homeowner_exemption_flag[OF r(1)] r show ?thesis by simp
qed

subsection \<open>C6: geocode candidates\<close>

lemma viable_set: "set (viable cands) = {c \<in> set cands. 70 \<le> score c}"
  by (auto simp: viable_def)

lemma viable_sorted: "sorted_wrt (\<lambda>a b. score b \<le> score a) (viable cands)"
proof -
  have "sorted (map (\<lambda>c. - score c) (viable cands))"
    unfolding viable_def by (rule sorted_sort_key)
  then show ?thesis by (simp add: sorted_map)
qed

lemma viable_stable:
  "filter (\<lambda>c. score c = k) (viable cands) =
   filter (\<lambda>c. score c = k) (filter (\<lambda>c. 70 \<le> score c) cands)"
proof -
  have "filter (\<lambda>c. - score c = - k) (viable cands) =
        filter (\<lambda>c. - score c = - k) (filter (\<lambda>c. 70 \<le> score c) cands)"
    unfolding viable_def by (rule sort_key_stable)
  then show ?thesis by simp
qed

lemma viable_top:
  "viable cands = c # rest \<Longrightarrow> \<forall>d \<in> set (viable cands). score d \<le> score c"
  using viable_sorted[of cands] by auto

lemma viable_none:
  assumes "\<forall>c \<in> set cands. score c < 70"
  shows "viable cands = []"
proof -
  have "filter (\<lambda>c. 70 \<le> score c) cands = []"
    using assms by (auto simp: filter_empty_conv)
  then show ?thesis by (simp add: viable_def)
qed

lemma viable_three:
  "score c1 = 95 \<Longrightarrow> score c2 = 69 \<Longrightarrow> score c3 = 80 \<Longrightarrow> viable [c1, c2, c3] = [c1, c3]"
  by (simp add: viable_def)

lemma geocode_result:
  assumes "geocode_service sess log (GeocodeAddress a) = Ok (Some cands)"
      and "\<forall>c \<in> set cands. score_of c \<noteq> Inl TypeError"
  shows "arcgis_geocode_address sess log a =
     (log @ [GeocodeAddress a],
      Inr (case viable cands of [] \<Rightarrow> None | c # rest \<Rightarrow> Some (patch_candidate c)))"
  using assms by (auto simp: arcgis_geocode_address_def list_ex_iff split: list.splits)

lemma search_no_viable:
  assumes "\<not> is_probable_apn (strip q)"
      and "geocode_service sess [] (GeocodeAddress (strip q)) = Ok (Some cands)"
      and "\<forall>c \<in> set cands. score_of c \<noteq> Inl TypeError"
      and "\<forall>c \<in> set cands. score c < 70"
  shows "search_property sess q = ([GeocodeAddress (strip q)], Inr null_result)"
  using assms geocode_result[OF assms(2,3)] viable_none[OF assms(4)]
  by (simp add: search_property_def Let_def null_result_def)

text \<open>
  C6: the candidates that survive are those of score at least 70; they are in descending
  order of score; candidates of equal score keep the order the service gave them (the sort
  is stable); when the geocoder answers with numeric scores, the first survivor is what
  \<open>arcgis_geocode_address\<close> returns, and no survivor has a higher score; candidates of scores
  95, 69, 80 leave the first and the third, in this order; and when every candidate scores
  below 70, an address query ends after the geocode call with no identifier, no feature, no
  situs and no markup.
\<close>

theorem geocode_candidate_handling:
  "set (viable cands) = {c \<in> set cands. 70 \<le> score c} \<and>
   sorted_wrt (\<lambda>a b. score b \<le> score a) (viable cands) \<and>
   (\<forall>k. filter (\<lambda>c. score c = k) (viable cands) =
        filter (\<lambda>c. score c = k) (filter (\<lambda>c. 70 \<le> score c) cands)) \<and>
   (geocode_service sess log (GeocodeAddress a) = Ok (Some cands) \<and>
    (\<forall>c \<in> set cands. score_of c \<noteq> Inl TypeError) \<longrightarrow>
      arcgis_geocode_address sess log a =
        (log @ [GeocodeAddress a],
         Inr (case viable cands of [] \<Rightarrow> None | c # rest \<Rightarrow> Some (patch_candidate c))) \<and>
      (\<forall>c rest. viable cands = c # rest \<longrightarrow> (\<forall>d \<in> set (viable cands). score d \<le> score c))) \<and>
   (score c1 = 95 \<and> score c2 = 69 \<and> score c3 = 80 \<longrightarrow> viable [c1, c2, c3] = [c1, c3]) \<and>
   (\<not> is_probable_apn (strip q) \<and>
    geocode_service sess [] (GeocodeAddress (strip q)) = Ok (Some cands) \<and>
    (\<forall>c \<in> set cands. score_of c \<noteq> Inl TypeError) \<and>
    (\<forall>c \<in> set cands. score c < 70) \<longrightarrow>
      search_property sess q = ([GeocodeAddress (strip q)], Inr null_result))"
proof (intro conjI allI impI)
  show "set (viable cands) = {c \<in> set cands. 70 \<le> score c}"
    by (rule viable_set)
  show "sorted_wrt (\<lambda>a b. score b \<le> score a) (viable cands)"
    by (rule viable_sorted)
  show "filter (\<lambda>c. score c = k) (viable cands) =
        filter (\<lambda>c. score c = k) (filter (\<lambda>c. 70 \<le> score c) cands)" for k
    by (rule viable_stable)
  show "arcgis_geocode_address sess log a =
        (log @ [GeocodeAddress a],
         Inr (case viable cands of [] \<Rightarrow> None | c # rest \<Rightarrow> Some (patch_candidate c)))"
    if "geocode_service sess log (GeocodeAddress a) = Ok (Some cands) \<and>
        (\<forall>c \<in> set cands. score_of c \<noteq> Inl TypeError)"
    using that geocode_result by blast
  show "\<forall>d \<in> set (viable cands). score d \<le> score c"
    if "viable cands = c # rest" for c rest
    using that by (rule viable_top)
  show "viable [c1, c2, c3] = [c1, c3]" if "score c1 = 95 \<and> score c2 = 69 \<and> score c3 = 80"
    using that viable_three by blast
  show "search_property sess q = ([GeocodeAddress (strip q)], Inr null_result)"
    if "\<not> is_probable_apn (strip q) \<and>
        geocode_service sess [] (GeocodeAddress (strip q)) = Ok (Some cands) \<and>
        (\<forall>c \<in> set cands. score_of c \<noteq> Inl TypeError) \<and>
        (\<forall>c \<in> set cands. score c < 70)"
    using that search_no_viable by blast
qed

text \<open>
  An instance of C6: three candidates of scores 95, 69, 80, and a query all of whose
  candidates score below 70.
\<close>

theorem geocode_candidate_handling_witness:
  "viable [candidate 95 ''A'', candidate 69 ''B'', candidate 80 ''C''] =
     [candidate 95 ''A'', candidate 80 ''C''] \<and>
   arcgis_geocode_address
       (geocoder_only [candidate 95 ''A'', candidate 69 ''B'', candidate 80 ''C'']) []
       ''1 Main St'' =
     ([GeocodeAddress ''1 Main St''], Inr (Some (patch_candidate (candidate 95 ''A'')))) \<and>
   search_property (geocoder_only [candidate 69 ''B'', candidate 12 ''D'']) ''1 Main St'' =
     ([GeocodeAddress ''1 Main St''], Inr null_result)"
proof -
  let ?three = "[candidate 95 ''A'', candidate 69 ''B'', candidate 80 ''C'']"
  let ?low = "[candidate 69 ''B'', candidate 12 ''D'']"
  have sc: "score (candidate 95 ''A'') = 95 \<and> score (candidate 69 ''B'') = 69 \<and>
            score (candidate 80 ''C'') = 80"
    by code_simp
  have g3: "geocode_service (geocoder_only ?three) [] (GeocodeAddress ''1 Main St'') =
              Ok (Some ?three) \<and>
            (\<forall>c \<in> set ?three. score_of c \<noteq> Inl TypeError)"
    by (simp add: geocoder_only_def candidate_def score_of_def)
  have low: "\<not> is_probable_apn (strip ''1 Main St'') \<and>
     geocode_service (geocoder_only ?low) [] (GeocodeAddress (strip ''1 Main St'')) =
       Ok (Some ?low) \<and>
     (\<forall>c \<in> set ?low. score_of c \<noteq> Inl TypeError) \<and> (\<forall>c \<in> set ?low. score c < 70)"
  proof (intro conjI)
    show "\<not> is_probable_apn (strip ''1 Main St'')" by code_simp
    show "geocode_service (geocoder_only ?low) [] (GeocodeAddress (strip ''1 Main St'')) =
       Ok (Some ?low)" by (simp add: geocoder_only_def)
    show "\<forall>c \<in> set ?low. score_of c \<noteq> Inl TypeError"
      by (simp add: candidate_def score_of_def)
    show "\<forall>c \<in> set ?low. score c < 70"
      by (simp add: candidate_def score_of_def score_def)
  qed
  have st: "strip ''1 Main St'' = ''1 Main St''" by code_simp
  have 1: "viable ?three = [candidate 95 ''A'', candidate 80 ''C'']"
    using geocode_candidate_handling[where ?c1.0 = "candidate 95 ''A''"
        and ?c2.0 = "candidate 69 ''B''" and ?c3.0 = "candidate 80 ''C''"] sc
    by blast
  have 2: "arcgis_geocode_address (geocoder_only ?three) [] ''1 Main St'' =
     ([] @ [GeocodeAddress ''1 Main St''],
      Inr (case viable ?three of [] \<Rightarrow> None | c # rest \<Rightarrow> Some (patch_candidate c)))"
    using geocode_candidate_handling[where cands = ?three and sess = "geocoder_only ?three"
        and log = "[]" and a = "''1 Main St''"] g3
    by blast
  have 3: "search_property (geocoder_only ?low) ''1 Main St'' =
     ([GeocodeAddress (strip ''1 Main St'')], Inr null_result)"
    using geocode_candidate_handling[where cands = ?low and sess = "geocoder_only ?low"
        and q = "''1 Main St''"] low
    by blast
  from 1 2 3 show ?thesis by (simp add: st)
qed

subsection \<open>The parcel-id path\<close>

















subsection \<open>C2: the terminal condition\<close>




subsection \<open>C3: the substring fallback\<close>






subsection \<open>C5: exceptions out of search_property\<close>

text \<open>
  C5 says that no exception leaves \<open>search_property\<close>, also for features whose attributes
  have no APN key. On the address path, after the spatial query, the code reads
  \<open>feature["attributes"]["APN"]\<close>: for a feature without that key this is a KeyError, and
  nothing catches it.
\<close>

theorem point_feature_without_apn_raises:
  "search_property point_without_apn ''70 W Hedding St, San Jose, CA'' =
     ([GeocodeAddress ''70 W Hedding St, San Jose, CA'',
       ParcelByPoint (PInt 6158000) (PInt 1946000) (PInt 4326)],
      Inl KeyError)"
  by code_simp

subsection \<open>C10: situs merge precedence\<close>

lemma main_merged:
  assumes "query_of src = Some q"
      and "search_property sess q = (log, Inr raw)"
      and "assessor_html raw = Some html" and "html \<noteq> []"
      and "parse_property_page html = Inr parsed"
  shows "main sess src False =
     (log, Inr \<lparr>written = merge (seed raw) parsed, situs_extra_apn = None, exit_code = 0\<rparr>)"
  using assms by (simp add: main_def nonempty_def)

text \<open>
  C10 as the specification states it: the page situs replaces the skeleton's whenever its
  street and city are both non-null. On \<open>COMMA_SITUS_HTML\<close> the page situs has the street ""
  (not null, but empty) and the city "San Jose", and the skeleton's situs is kept.
\<close>

theorem empty_street_counterexample:
  "street (situs_address (projr (parse_property_page COMMA_SITUS_HTML))) = Some [] \<and>
   city (situs_address (projr (parse_property_page COMMA_SITUS_HTML))) = Some ''San Jose'' \<and>
   situs_address (written (projr (snd (main (situs_page COMMA_SITUS_HTML) (Apn ''235-12-003'') False))))
     = \<lparr>street = Some ''123 SAMPLE ST'', city = Some ''SAN JOSE'', state = Some ''CA'',
        zipcode = Some ''95123''\<rparr>"
  by code_simp

text \<open>
  C10 as amended: in a run that fetched a non-empty page and extracted a record from it, the
  situs address written is the page-extracted one if and only if its street and its city
  are both non-null and non-empty; in every other case it is the geospatial skeleton's situs
  address (all null when the search gave no situs).
\<close>

theorem situs_merge_precedence:
  "query_of src = Some q \<and> search_property sess q = (log, Inr raw) \<and>
   assessor_html raw = Some html \<and> html \<noteq> [] \<and> parse_property_page html = Inr parsed \<longrightarrow>
     (\<exists>out. main sess src False = (log, Inr out) \<and>
        situs_address (written out) =
          (if nonempty (street (situs_address parsed)) \<and> nonempty (city (situs_address parsed))
           then situs_address parsed else skeleton_situs raw))"
proof
  assume "query_of src = Some q \<and> search_property sess q = (log, Inr raw) \<and>
   assessor_html raw = Some html \<and> html \<noteq> [] \<and> parse_property_page html = Inr parsed"
  then have "main sess src False =
     (log, Inr \<lparr>written = merge (seed raw) parsed, situs_extra_apn = None, exit_code = 0\<rparr>)"
    using main_merged by blast
  then show "\<exists>out. main sess src False = (log, Inr out) \<and>
        situs_address (written out) =
          (if nonempty (street (situs_address parsed)) \<and> nonempty (city (situs_address parsed))
           then situs_address parsed else skeleton_situs raw)"
    by (simp add: merge_def seed_def skeleton_situs_def)
qed

text \<open>An instance of C10 as amended: a page with street and city replaces the skeleton.\<close>

theorem situs_merge_precedence_witness:
  "situs_address (written (projr (snd (main (situs_page PAGE_SITUS_HTML) (Apn ''235-12-003'') False))))
     = \<lparr>street = Some ''456 Page Ave'', city = Some ''San Jose'', state = Some ''CA'',
        zipcode = Some ''95123''\<rparr>"
proof -
  let ?sess = "situs_page PAGE_SITUS_HTML"
  let ?res = "search_property ?sess ''235-12-003''"
  have q: "query_of (Apn ''235-12-003'') = Some ''235-12-003''" by code_simp
  have s: "\<not> isl (snd ?res)" "assessor_html (projr (snd ?res)) = Some PAGE_SITUS_HTML"
    by code_simp+
  have h: "PAGE_SITUS_HTML \<noteq> []" by code_simp
  have p: "\<not> isl (parse_property_page PAGE_SITUS_HTML)"
    "situs_address (projr (parse_property_page PAGE_SITUS_HTML)) =
       \<lparr>street = Some ''456 Page Ave'', city = Some ''San Jose'', state = Some ''CA'',
        zipcode = Some ''95123''\<rparr>"
    by code_simp+
  from s(1) have res: "?res = (fst ?res, Inr (projr (snd ?res)))"
    by (cases ?res) (auto simp: isl_def)
  from p(1) have par: "parse_property_page PAGE_SITUS_HTML =
      Inr (projr (parse_property_page PAGE_SITUS_HTML))"
    by (auto simp: isl_def)
  from situs_merge_precedence[of "Apn ''235-12-003''" "''235-12-003''" ?sess "fst ?res"
      "projr (snd ?res)" PAGE_SITUS_HTML "projr (parse_property_page PAGE_SITUS_HTML)"]
    q res s(2) h par
  obtain out where out: "main ?sess (Apn ''235-12-003'') False = (fst ?res, Inr out)"
    "situs_address (written out) =
       (if nonempty (street (situs_address (projr (parse_property_page PAGE_SITUS_HTML)))) \<and>
           nonempty (city (situs_address (projr (parse_property_page PAGE_SITUS_HTML))))
        then situs_address (projr (parse_property_page PAGE_SITUS_HTML))
        else skeleton_situs (projr (snd ?res)))"
    by blast
  from out show ?thesis by (simp add: p(2) nonempty_def)
qed

end
